theory Spec2Isabelle
  imports Main "HOL-Library.Sublist"
begin

text \<open>
  The host side of pi-ptc, which runs a Python script that calls the host's tools over a
  line-oriented RPC protocol: the output truncation of \<^verbatim>\<open>utils.ts\<close>, the stub generator
  of \<^verbatim>\<open>tool-wrapper.ts\<close>, the protocol handler of \<^verbatim>\<open>rpc-protocol.ts\<close>, the executor of
  \<^verbatim>\<open>code-executor.ts\<close> and the two sandbox backends of \<^verbatim>\<open>sandbox-manager.ts\<close>.
  Pure functions are HOL functions; a function that can throw returns a sum with the error
  on the left; an object with mutable fields is a record that each handler returns
  updated; what the environment decides (the outcome of \<^verbatim>\<open>JSON.parse\<close>, of a tool
  dispatch, of a docker command, a reading of the clock, the arrival of an event) is an
  argument.
\<close>

section \<open>Strings\<close>

text \<open>
  A JavaScript string is modelled as a \<open>string\<close>: one \<open>char\<close> per code unit, so
  \<open>length\<close> is the \<open>.length\<close> of the source. Every literal of the sources is ASCII.
  A template literal \<^verbatim>\<open>${n}\<close> of a non-negative integer prints its decimal digits.
\<close>

definition digit :: "nat \<Rightarrow> char" where
  "digit d = (if d = 0 then CHR ''0'' else if d = 1 then CHR ''1'' else if d = 2 then CHR ''2''
     else if d = 3 then CHR ''3'' else if d = 4 then CHR ''4'' else if d = 5 then CHR ''5''
     else if d = 6 then CHR ''6'' else if d = 7 then CHR ''7'' else if d = 8 then CHR ''8''
     else CHR ''9'')"

fun decimal :: "nat \<Rightarrow> string" where
  "decimal n = (if 10 \<le> n then decimal (n div 10) @ [digit (n mod 10)] else [digit n])"

declare decimal.simps [simp del]

text \<open>\<^verbatim>\<open>Array.prototype.join\<close> and \<^verbatim>\<open>String.prototype.includes\<close>.\<close>

fun join :: "string \<Rightarrow> string list \<Rightarrow> string" where
  "join sep [] = []"
| "join sep [x] = x"
| "join sep (x # y # ys) = x @ sep @ join sep (y # ys)"

definition str_includes :: "string \<Rightarrow> string \<Rightarrow> bool" where
  "str_includes s sub = sublist sub s"

section \<open>utils.ts: truncateOutput\<close>

definition MAX_OUTPUT_SIZE :: nat where
  "MAX_OUTPUT_SIZE = 100000"

definition truncateOutput :: "string \<Rightarrow> string" where
  "truncateOutput output =
     (if length output \<le> MAX_OUTPUT_SIZE then output
      else (let truncated = take MAX_OUTPUT_SIZE output;
                truncationNotice =
                  ''\<newline>\<newline>[Output truncated - showing first '' @ decimal MAX_OUTPUT_SIZE
                  @ '' characters of '' @ decimal (length output) @ '']''
            in truncated @ truncationNotice))"

definition formatPythonError :: "string \<Rightarrow> string option \<Rightarrow> string" where
  "formatPythonError message traceback =
     (case traceback of
        Some tb \<Rightarrow>
          if tb \<noteq> [] then
            ''Python execution error:\<newline>'' @ message @ ''\<newline>\<newline>Traceback:\<newline>'' @ tb
          else ''Python execution error: '' @ message
      | None \<Rightarrow> ''Python execution error: '' @ message)"

section \<open>JavaScript values\<close>

text \<open>
  Tool parameter schemas are untyped on the host side (the sources cast them to
  \<^verbatim>\<open>any\<close>), so they are modelled as JavaScript values. An object is the list of its
  own properties in the order \<^verbatim>\<open>Object.entries\<close> enumerates them. Numbers are
  carried as integers: the sources only test them for truthiness.
\<close>

datatype js =
    Undefined
  | Null
  | Bool bool
  | Num int
  | Str string
  | Arr "js list"
  | Obj "(string \<times> js) list"

datatype exn = TypeError | Error string

text \<open>
  Reading a property \<^verbatim>\<open>v.k\<close>, for the keys the sources read from a schema
  (\<^verbatim>\<open>type\<close>, \<^verbatim>\<open>items\<close>, \<^verbatim>\<open>anyOf\<close>, \<^verbatim>\<open>description\<close>, \<^verbatim>\<open>properties\<close>,
  \<^verbatim>\<open>required\<close>): it throws a TypeError on \<^verbatim>\<open>undefined\<close> and \<^verbatim>\<open>null\<close>, and no
  string, number, boolean or array has one of these keys.
\<close>

fun getProp :: "js \<Rightarrow> string \<Rightarrow> exn + js" where
  "getProp Undefined k = Inl TypeError"
| "getProp Null k = Inl TypeError"
| "getProp (Obj kvs) k = Inr (case map_of kvs k of Some v \<Rightarrow> v | None \<Rightarrow> Undefined)"
| "getProp v k = Inr Undefined"

fun truthy :: "js \<Rightarrow> bool" where
  "truthy Undefined = False"
| "truthy Null = False"
| "truthy (Bool b) = b"
| "truthy (Num n) = (n \<noteq> 0)"
| "truthy (Str s) = (s \<noteq> [])"
| "truthy (Arr xs) = True"
| "truthy (Obj kvs) = True"

lemma map_of_size:
  "map_of kvs k = Some v \<Longrightarrow> size v < Suc (size_list (size_prod (\<lambda>_. 0) size) kvs)"
  by (induction kvs) (auto split: if_splits)

lemma getProp_size: "getProp schema k = Inr v \<Longrightarrow> truthy v \<Longrightarrow> size v < size schema"
  by (cases schema) (auto split: option.splits dest: map_of_size)

section \<open>tool-wrapper.ts: schemaToPythonType\<close>

function schemaToPythonType :: "js \<Rightarrow> exn + string" where
  "schemaToPythonType schema =
     (case getProp schema ''type'' of
        Inl e \<Rightarrow> Inl e
      | Inr kind \<Rightarrow>
          if kind = Str ''string'' then Inr ''str''
          else if kind = Str ''number'' then Inr ''float''
          else if kind = Str ''integer'' then Inr ''int''
          else if kind = Str ''boolean'' then Inr ''bool''
          else if kind = Str ''array'' then
            (case getProp schema ''items'' of
               Inl e \<Rightarrow> Inl e
             | Inr items \<Rightarrow>
                 (case (if truthy items then schemaToPythonType items else Inr ''Any'') of
                    Inl e \<Rightarrow> Inl e
                  | Inr itemType \<Rightarrow> Inr (''List['' @ itemType @ '']'')))
          else if kind = Str ''object'' then Inr ''Dict[str, Any]''
          else if kind = Str ''null'' then Inr ''None''
          else Inr ''Any'')"
  by pat_completeness auto
termination
  by (relation "measure size") (auto dest: getProp_size)

declare schemaToPythonType.simps [simp del]

text \<open>
  For comparison, the same mapping with the recursion on \<^verbatim>\<open>items\<close> cut off after \<open>d\<close>
  nested calls: where a further call would be needed, the item type is \<open>Any\<close>. The
  specification's wording, in which array item types recurse one level, is the case
  \<open>d = 1\<close>. The source has no such bound.
\<close>

fun schemaToPythonType_depth :: "nat \<Rightarrow> js \<Rightarrow> exn + string" where
  "schemaToPythonType_depth d schema =
     (case getProp schema ''type'' of
        Inl e \<Rightarrow> Inl e
      | Inr kind \<Rightarrow>
          if kind = Str ''string'' then Inr ''str''
          else if kind = Str ''number'' then Inr ''float''
          else if kind = Str ''integer'' then Inr ''int''
          else if kind = Str ''boolean'' then Inr ''bool''
          else if kind = Str ''array'' then
            (case getProp schema ''items'' of
               Inl e \<Rightarrow> Inl e
             | Inr items \<Rightarrow>
                 (case (if truthy items
                        then (case d of
                                0 \<Rightarrow> Inr ''Any''
                              | Suc d' \<Rightarrow> schemaToPythonType_depth d' items)
                        else Inr ''Any'') of
                    Inl e \<Rightarrow> Inl e
                  | Inr itemType \<Rightarrow> Inr (''List['' @ itemType @ '']'')))
          else if kind = Str ''object'' then Inr ''Dict[str, Any]''
          else if kind = Str ''null'' then Inr ''None''
          else Inr ''Any'')"

declare schemaToPythonType_depth.simps [simp del]

definition schemaToPythonType_one_level :: "js \<Rightarrow> exn + string" where
  "schemaToPythonType_one_level schema = schemaToPythonType_depth 1 schema"

text \<open>The schema of arrays nested \<open>n\<close> deep around a given item schema.\<close>

fun nested_arrays :: "nat \<Rightarrow> js \<Rightarrow> js" where
  "nested_arrays 0 schema = schema"
| "nested_arrays (Suc n) schema =
     Obj [(''type'', Str ''array''), (''items'', nested_arrays n schema)]"

section \<open>tool-wrapper.ts: isOptional, extractNonNullSchema and the stub signature\<close>

text \<open>
  \<^verbatim>\<open>anyOf.some(s => s.type === "null")\<close> and \<^verbatim>\<open>anyOf.find(s => s.type !== "null")\<close>
  on the elements of an array, left to right, stopping at the first hit; reading
  \<^verbatim>\<open>s.type\<close> throws on a \<^verbatim>\<open>null\<close> element. Calling either method on a value that
  is not an array throws a TypeError.
\<close>

fun some_null :: "js list \<Rightarrow> exn + bool" where
  "some_null [] = Inr False"
| "some_null (s # ss) =
     (case getProp s ''type'' of
        Inl e \<Rightarrow> Inl e
      | Inr t \<Rightarrow> if t = Str ''null'' then Inr True else some_null ss)"

fun find_nonNull :: "js list \<Rightarrow> exn + js" where
  "find_nonNull [] = Inr Undefined"
| "find_nonNull (s # ss) =
     (case getProp s ''type'' of
        Inl e \<Rightarrow> Inl e
      | Inr t \<Rightarrow> if t \<noteq> Str ''null'' then Inr s else find_nonNull ss)"

definition isOptional :: "js \<Rightarrow> exn + bool" where
  "isOptional schema =
     (case getProp schema ''anyOf'' of
        Inl e \<Rightarrow> Inl e
      | Inr anyOf \<Rightarrow>
          if truthy anyOf then (case anyOf of Arr xs \<Rightarrow> some_null xs | _ \<Rightarrow> Inl TypeError)
          else Inr False)"

definition extractNonNullSchema :: "js \<Rightarrow> exn + js" where
  "extractNonNullSchema schema =
     (case getProp schema ''anyOf'' of
        Inl e \<Rightarrow> Inl e
      | Inr anyOf \<Rightarrow>
          if truthy anyOf then
            (case anyOf of
               Arr xs \<Rightarrow>
                 (case find_nonNull xs of
                    Inl e \<Rightarrow> Inl e
                  | Inr nonNull \<Rightarrow> Inr (if truthy nonNull then nonNull else schema))
             | _ \<Rightarrow> Inl TypeError)
          else Inr schema)"

text \<open>
  A tool as the generator reads it. \<^verbatim>\<open>parameters?.properties\<close> is \<^verbatim>\<open>undefined\<close> when
  \<^verbatim>\<open>parameters\<close> is \<^verbatim>\<open>undefined\<close> or \<^verbatim>\<open>null\<close>.
\<close>

record ToolInfo =
  tool_name :: string
  tool_description :: string
  tool_parameters :: js

definition optProp :: "js \<Rightarrow> string \<Rightarrow> js" where
  "optProp v k = (case getProp v k of Inl e \<Rightarrow> Undefined | Inr x \<Rightarrow> x)"

text \<open>
  \<^verbatim>\<open>Object.entries\<close> of a truthy value: the own properties of an object, the indexed
  elements of an array or of a string, nothing for a number or a boolean.
\<close>

fun entries :: "js \<Rightarrow> (string \<times> js) list" where
  "entries (Obj kvs) = kvs"
| "entries (Arr xs) = zip (map decimal [0..<length xs]) xs"
| "entries (Str s) = zip (map decimal [0..<length s]) (map (\<lambda>c. Str [c]) s)"
| "entries v = []"

text \<open>
  \<^verbatim>\<open>new Set(parameters?.required || [])\<close>, as the list of its elements: an array gives its
  elements, a string its characters, and any other truthy value is not iterable.
\<close>

definition requiredSet :: "js \<Rightarrow> exn + js list" where
  "requiredSet parameters =
     (let r = optProp parameters ''required'' in
      if truthy r then
        (case r of
           Arr xs \<Rightarrow> Inr xs
         | Str s \<Rightarrow> Inr (map (\<lambda>c. Str [c]) s)
         | _ \<Rightarrow> Inl TypeError)
      else Inr [])"

text \<open>One iteration of the loop over the parameters: the entry pushed on \<^verbatim>\<open>paramList\<close>.\<close>

definition paramEntry :: "js list \<Rightarrow> string \<Rightarrow> js \<Rightarrow> exn + string" where
  "paramEntry required paramName schema =
     (case (if Str paramName \<notin> set required then Inr True else isOptional schema) of
        Inl e \<Rightarrow> Inl e
      | Inr isOpt \<Rightarrow>
          (case isOptional schema of
             Inl e \<Rightarrow> Inl e
           | Inr nullable \<Rightarrow>
               (case (if nullable then extractNonNullSchema schema else Inr schema) of
                  Inl e \<Rightarrow> Inl e
                | Inr actualSchema \<Rightarrow>
                    (case schemaToPythonType actualSchema of
                       Inl e \<Rightarrow> Inl e
                     | Inr pythonType \<Rightarrow>
                         Inr (if isOpt then paramName @ '': Optional['' @ pythonType @ ''] = None''
                              else paramName @ '': '' @ pythonType)))))"

fun paramList_of :: "js list \<Rightarrow> (string \<times> js) list \<Rightarrow> exn + string list" where
  "paramList_of required [] = Inr []"
| "paramList_of required ((paramName, schema) # rest) =
     (case paramEntry required paramName schema of
        Inl e \<Rightarrow> Inl e
      | Inr p \<Rightarrow>
          (case paramList_of required rest of
             Inl e \<Rightarrow> Inl e
           | Inr ps \<Rightarrow> Inr (p # ps)))"

text \<open>
  The value of \<^verbatim>\<open>signature\<close> in \<^verbatim>\<open>generateToolWrapper\<close>: the parameter list, its
  split into required and optional entries, and the signature text. (The docstring and the
  body that follow it in the wrapper are not part of the model.)
\<close>

definition generateToolWrapper_signature :: "ToolInfo \<Rightarrow> exn + string" where
  "generateToolWrapper_signature tool =
     (let p = optProp (tool_parameters tool) ''properties'';
          params = (if truthy p then p else Obj [])
      in case requiredSet (tool_parameters tool) of
           Inl e \<Rightarrow> Inl e
         | Inr required \<Rightarrow>
             (case paramList_of required (entries params) of
                Inl e \<Rightarrow> Inl e
              | Inr paramList \<Rightarrow>
                  (let requiredParams = filter (\<lambda>p. \<not> str_includes p ''= None'') paramList;
                       optionalParams = filter (\<lambda>p. str_includes p ''= None'') paramList
                   in Inr (''async def '' @ tool_name tool @ ''(''
                        @ (if requiredParams \<noteq> [] then
                             ''\<newline>    '' @ join '',\<newline>    '' requiredParams
                             @ (if optionalParams \<noteq> [] then
                                  '',\<newline>    *,\<newline>    '' @ join '',\<newline>    '' optionalParams
                                else [])
                           else if optionalParams \<noteq> [] then
                             ''\<newline>    *,\<newline>    '' @ join '',\<newline>    '' optionalParams
                           else [])
                        @ ''\<newline>) -> str:''))))"

section \<open>Promises, child processes and timers\<close>

text \<open>
  A promise settles once: \<open>resolve\<close> and \<open>reject\<close> on a settled promise change
  nothing.
\<close>

datatype 'a promise = Pending | Resolved 'a | Rejected string

definition resolve :: "'a \<Rightarrow> 'a promise \<Rightarrow> 'a promise" where
  "resolve v p = (case p of Pending \<Rightarrow> Resolved v | _ \<Rightarrow> p)"

definition reject :: "string \<Rightarrow> 'a promise \<Rightarrow> 'a promise" where
  "reject m p = (case p of Pending \<Rightarrow> Rejected m | _ \<Rightarrow> p)"

datatype signal = SIGTERM | SIGKILL

text \<open>
  A \<^verbatim>\<open>tool_result\<close> message, the only message the host writes: the call id, the
  content and the optional error text.
\<close>

datatype tool_result = ToolResult string js "string option"

text \<open>
  The child process as the sources observe it. \<open>exitCode\<close> is \<^verbatim>\<open>null\<close> (\<open>None\<close>) while
  the process runs and stays \<^verbatim>\<open>null\<close> when a signal ends it. \<open>signals\<close> lists the
  signals delivered by \<^verbatim>\<open>proc.kill\<close>, which delivers nothing once the process has
  ended. \<open>stdin_written\<close> lists the messages written to the standard input.
\<close>

record child =
  exitCode :: "int option"
  running :: bool
  signals :: "signal list"
  stdin_destroyed :: bool
  stdin_written :: "tool_result list"

definition spawned :: child where
  "spawned = \<lparr>exitCode = None, running = True, signals = [], stdin_destroyed = False,
     stdin_written = []\<rparr>"

definition kill :: "signal \<Rightarrow> child \<Rightarrow> child" where
  "kill sig p = (if running p then p\<lparr>signals := signals p @ [sig]\<rparr> else p)"

definition exited :: "int option \<Rightarrow> child \<Rightarrow> child" where
  "exited code p = p\<lparr>running := False, exitCode := code\<rparr>"

text \<open>
  The pending \<^verbatim>\<open>setTimeout\<close> callbacks, each with the delay in milliseconds it was
  armed with. \<open>ExecutionTimer\<close> is the callback of the execution timeout, \<open>GraceTimer\<close> the
  callback that force-kills a process that has not exited.
\<close>

datatype timer = ExecutionTimer | GraceTimer

definition setTimeout :: "timer \<Rightarrow> int \<Rightarrow> (timer \<times> int) list \<Rightarrow> (timer \<times> int) list" where
  "setTimeout t ms ts = ts @ [(t, ms)]"

definition clearTimeout :: "timer \<Rightarrow> (timer \<times> int) list \<Rightarrow> (timer \<times> int) list" where
  "clearTimeout t ts = filter (\<lambda>(t', ms). t' \<noteq> t) ts"

definition armed :: "timer \<Rightarrow> (timer \<times> int) list \<Rightarrow> bool" where
  "armed t ts = (t \<in> fst ` set ts)"

fun fired :: "timer \<Rightarrow> (timer \<times> int) list \<Rightarrow> (timer \<times> int) list" where
  "fired t [] = []"
| "fired t ((t', ms) # ts) = (if t' = t then ts else (t', ms) # fired t ts)"

text \<open>The decimal text of an integer, as a template literal prints it.\<close>

definition decimal_int :: "int \<Rightarrow> string" where
  "decimal_int i = (if 0 \<le> i then decimal (nat i) else CHR ''-'' # decimal (nat (- i)))"

fun split_on :: "char \<Rightarrow> string \<Rightarrow> string list" where
  "split_on c [] = [[]]"
| "split_on c (x # xs) =
     (if x = c then [] # split_on c xs
      else (case split_on c xs of l # ls \<Rightarrow> (x # l) # ls | [] \<Rightarrow> [[x]]))"

section \<open>rpc-protocol.ts: RpcProtocol\<close>

text \<open>
  The messages \<^verbatim>\<open>handleMessage\<close> has a case for, with the fields \<^verbatim>\<open>RpcMessage\<close>
  declares for them, and the outcome of \<^verbatim>\<open>JSON.parse\<close> on a line of the guest's
  standard output: it throws (\<open>SyntaxError\<close>), or it returns a value with none of the five
  handled \<^verbatim>\<open>type\<close> tags (\<open>Unhandled\<close>: a number, a string, an array, \<^verbatim>\<open>null\<close>, an
  object with another tag or none), or it returns a handled message.
\<close>

text \<open>
  \<open>ToolCall id tool params\<close>, \<open>ExecutionProgress line\<close>, \<open>Complete output\<close>,
  \<open>ErrorMessage message traceback\<close> and \<open>Update message\<close>.
\<close>

datatype rpc_message =
    ToolCall string string js
  | ExecutionProgress int
  | Complete string
  | ErrorMessage string "string option"
  | Update string

datatype parsed = SyntaxError | Unhandled js | Handled rpc_message

text \<open>
  The host tool dispatcher \<^verbatim>\<open>executeTool(name, params)\<close> either resolves with a result
  object, of which only \<^verbatim>\<open>result.content\<close> is read (\<open>Fulfilled\<close> carries that value,
  \<open>Undefined\<close> when the result has none), or throws: an \<^verbatim>\<open>Error\<close> with its message, or
  another value given by its \<^verbatim>\<open>String(err)\<close>. The \<^verbatim>\<open>await\<close> is modelled as returning
  the outcome in place: events that arrive while a dispatch is pending are not interleaved
  with it. The progress observer \<^verbatim>\<open>onUpdate\<close> is taken not to throw; \<open>updates\<close> lists
  what it was called with.
\<close>

datatype thrown = ErrorObject string | OtherValue string

datatype dispatch_outcome = Fulfilled js | Thrown thrown

fun thrown_message :: "thrown \<Rightarrow> string" where
  "thrown_message (ErrorObject m) = m"
| "thrown_message (OtherValue v) = v"

datatype update = ProgressUpdate string int nat "string list" | TextUpdate string

record rpc_env =
  tools :: "string \<rightharpoonup> ToolInfo"
  executeTool :: "string \<Rightarrow> js \<Rightarrow> dispatch_outcome"
  has_signal :: bool
  has_onUpdate :: bool

record rpc_state =
  stdout_buf :: string
  stderr_buf :: string
  currentLine :: int
  userCodeLines :: "string list"
  completion :: "string promise"
  proc :: child
  timers :: "(timer \<times> int) list"
  abort_listener :: bool
  updates :: "update list"

definition RpcProtocol_new :: "rpc_env \<Rightarrow> string \<Rightarrow> rpc_state" where
  "RpcProtocol_new env userCode =
     \<lparr>stdout_buf = [], stderr_buf = [], currentLine = 0,
      userCodeLines = split_on CHR 0x0A userCode, completion = Pending, proc = spawned,
      timers = [], abort_listener = has_signal env, updates = []\<rparr>"

definition send :: "tool_result \<Rightarrow> rpc_state \<Rightarrow> rpc_state" where
  "send msg s =
     (if \<not> stdin_destroyed (proc s)
      then s\<lparr>proc := (proc s)\<lparr>stdin_written := stdin_written (proc s) @ [msg]\<rparr>\<rparr>
      else s)"

definition handleToolCall :: "rpc_env \<Rightarrow> string \<Rightarrow> string \<Rightarrow> js \<Rightarrow> rpc_state \<Rightarrow> rpc_state" where
  "handleToolCall env call_id tool params s =
     (case tools env tool of
        None \<Rightarrow> send (ToolResult call_id (Arr []) (Some (''Unknown tool: '' @ tool))) s
      | Some toolInfo \<Rightarrow>
          (case executeTool env tool params of
             Fulfilled content \<Rightarrow>
               send (ToolResult call_id (if truthy content then content else Arr []) None) s
           | Thrown err \<Rightarrow> send (ToolResult call_id (Arr []) (Some (thrown_message err))) s))"

text \<open>The \<^verbatim>\<open>catch\<close> branch of \<^verbatim>\<open>handleMessage\<close>: the line joins the captured text.\<close>

definition capture :: "string \<Rightarrow> rpc_state \<Rightarrow> rpc_state" where
  "capture line s =
     (if stdout_buf s \<noteq> [] then s\<lparr>stdout_buf := stdout_buf s @ ''\<newline>'' @ line\<rparr>
      else s\<lparr>stdout_buf := line\<rparr>)"

definition notify :: "rpc_env \<Rightarrow> update \<Rightarrow> rpc_state \<Rightarrow> rpc_state" where
  "notify env u s = (if has_onUpdate env then s\<lparr>updates := updates s @ [u]\<rparr> else s)"

fun handleMessage :: "rpc_env \<Rightarrow> string \<Rightarrow> parsed \<Rightarrow> rpc_state \<Rightarrow> rpc_state" where
  "handleMessage env line SyntaxError s = capture line s"
| "handleMessage env line (Unhandled msg) s =
     (case getProp msg ''type'' of Inl e \<Rightarrow> capture line s | Inr t \<Rightarrow> s)"
| "handleMessage env line (Handled (ToolCall call_id tool params)) s =
     handleToolCall env call_id tool params s"
| "handleMessage env line (Handled (ExecutionProgress n)) s =
     notify env
       (ProgressUpdate
          (''Executing line '' @ decimal_int n @ ''/'' @ decimal (length (userCodeLines s)))
          n (length (userCodeLines s)) (userCodeLines s))
       (s\<lparr>currentLine := n\<rparr>)"
| "handleMessage env line (Handled (Complete output)) s =
     (let finalOutput = (if stdout_buf s \<noteq> [] then stdout_buf s @ ''\<newline>'' @ output else output)
      in s\<lparr>completion := resolve finalOutput (completion s)\<rparr>)"
| "handleMessage env line (Handled (ErrorMessage message traceback)) s =
     (let errorMsg = message @ (case traceback of
                                  Some tb \<Rightarrow> if tb \<noteq> [] then ''\<newline>'' @ tb else []
                                | None \<Rightarrow> [])
      in s\<lparr>completion := reject errorMsg (completion s)\<rparr>)"
| "handleMessage env line (Handled (Update message)) s = notify env (TextUpdate message) s"

text \<open>
  The events the constructor registers a handler for, and the firing of a pending
  timer. \<open>ProcExit code\<close> is the \<^verbatim>\<open>exit\<close> event, with \<open>None\<close> for a process ended by a
  signal; \<open>StdinDestroyed\<close> is the environment closing the pipe to the guest.
\<close>

datatype rpc_event =
    StdoutLine string parsed
  | StderrData string
  | ProcExit "int option"
  | ProcError string
  | StdinDestroyed
  | AbortSignal
  | TimerFires timer

fun rpc_step :: "rpc_env \<Rightarrow> rpc_state \<Rightarrow> rpc_event \<Rightarrow> rpc_state" where
  "rpc_step env s (StdoutLine line p) = handleMessage env line p s"
| "rpc_step env s (StderrData d) = s\<lparr>stderr_buf := stderr_buf s @ d\<rparr>"
| "rpc_step env s (ProcExit code) =
     (let s' = s\<lparr>proc := exited code (proc s)\<rparr> in
      case code of
        None \<Rightarrow> s'
      | Some c \<Rightarrow>
          if c \<noteq> 0 then
            (let errorMsg = (if stderr_buf s' \<noteq> [] then stderr_buf s'
                             else ''Process exited with code '' @ decimal_int c)
             in s'\<lparr>completion := reject errorMsg (completion s')\<rparr>)
          else s')"
| "rpc_step env s (ProcError m) =
     s\<lparr>completion := reject (''Process error: '' @ m) (completion s)\<rparr>"
| "rpc_step env s StdinDestroyed = s\<lparr>proc := (proc s)\<lparr>stdin_destroyed := True\<rparr>\<rparr>"
| "rpc_step env s AbortSignal =
     (if abort_listener s then
        s\<lparr>proc := kill SIGTERM (proc s),
          timers := setTimeout GraceTimer 5000 (timers s),
          completion := reject ''Execution aborted'' (completion s),
          abort_listener := False\<rparr>
      else s)"
| "rpc_step env s (TimerFires t) =
     (if armed t (timers s) then
        (let s' = s\<lparr>timers := fired t (timers s)\<rparr> in
         case t of
           GraceTimer \<Rightarrow>
             if exitCode (proc s') = None then s'\<lparr>proc := kill SIGKILL (proc s')\<rparr> else s'
         | ExecutionTimer \<Rightarrow> s')
      else s)"

definition rpc_run :: "rpc_env \<Rightarrow> rpc_state \<Rightarrow> rpc_event list \<Rightarrow> rpc_state" where
  "rpc_run env s evs = foldl (rpc_step env) s evs"

section \<open>code-executor.ts: CodeExecutor.execute\<close>

text \<open>
  \<^verbatim>\<open>execute\<close> spawns the interpreter itself, builds the tool map from the catalogue (a
  later tool of the same name replaces an earlier one) and constructs the
  \<^verbatim>\<open>RpcProtocol\<close>: \<open>CodeExecutor_execute\<close> is the state this leaves. It arms no timer
  and calls no method of the sandbox manager. The promise it returns settles with the
  completion (\<open>CodeExecutor_outcome\<close>): an output goes through \<open>truncateOutput\<close>, an
  error message is wrapped by \<open>formatPythonError\<close> unless it already contains the
  wrapper's prefix. (Reading the runtime files and assembling the program text, which
  happen before the process is spawned, are not part of the model.)
\<close>

definition toolsMap :: "ToolInfo list \<Rightarrow> (string \<rightharpoonup> ToolInfo)" where
  "toolsMap allTools = map_of (rev (map (\<lambda>t. (tool_name t, t)) allTools))"

definition CodeExecutor_env ::
  "ToolInfo list \<Rightarrow> (string \<Rightarrow> js \<Rightarrow> dispatch_outcome) \<Rightarrow> bool \<Rightarrow> bool \<Rightarrow> rpc_env" where
  "CodeExecutor_env allTools dispatch with_signal with_onUpdate =
     \<lparr>tools = toolsMap allTools, executeTool = dispatch, has_signal = with_signal,
      has_onUpdate = with_onUpdate\<rparr>"

definition CodeExecutor_execute :: "rpc_env \<Rightarrow> string \<Rightarrow> rpc_state" where
  "CodeExecutor_execute env userCode = RpcProtocol_new env userCode"

definition CodeExecutor_outcome :: "rpc_state \<Rightarrow> string promise" where
  "CodeExecutor_outcome s =
     (case completion s of
        Pending \<Rightarrow> Pending
      | Resolved output \<Rightarrow> Resolved (truncateOutput output)
      | Rejected m \<Rightarrow>
          if str_includes m ''Python execution error'' then Rejected m
          else Rejected (formatPythonError m None))"

section \<open>sandbox-manager.ts: running a program in a sandbox\<close>

definition EXECUTION_TIMEOUT :: int where
  "EXECUTION_TIMEOUT = 270000"

text \<open>
  The state of one \<^verbatim>\<open>execute\<close> call of a sandbox: the captured streams, the
  \<^verbatim>\<open>killed\<close> flag, the promise the call returns, the child process, the pending timers,
  whether the abort listener is registered, and whether the stream, exit and error
  handlers were attached (they are not when the signal was aborted before the call).
\<close>

record exec_state =
  ex_stdout :: string
  ex_stderr :: string
  ex_killed :: bool
  ex_promise :: "string promise"
  ex_proc :: child
  ex_timers :: "(timer \<times> int) list"
  ex_abort_listener :: bool
  ex_handlers :: bool

text \<open>The optional \<^verbatim>\<open>signal\<close> argument: absent, not aborted yet, or aborted already.\<close>

datatype signal_arg = NoSignal | LiveSignal | AbortedSignal

datatype exec_event =
    OnTimer timer
  | OnAbort
  | OnStdout string
  | OnStderr string
  | OnExit "int option"
  | OnError string

definition exit_code_text :: "int option \<Rightarrow> string" where
  "exit_code_text code = (case code of None \<Rightarrow> ''null'' | Some c \<Rightarrow> decimal_int c)"

definition timeout_message :: string where
  "timeout_message =
     ''Execution timed out after '' @ decimal_int (EXECUTION_TIMEOUT div 1000) @ '' seconds''"

subsection \<open>SubprocessSandbox.execute\<close>

definition SubprocessSandbox_execute :: "signal_arg \<Rightarrow> exec_state" where
  "SubprocessSandbox_execute sig =
     (let s = \<lparr>ex_stdout = [], ex_stderr = [], ex_killed = False, ex_promise = Pending,
                ex_proc = spawned,
                ex_timers = setTimeout ExecutionTimer EXECUTION_TIMEOUT [],
                ex_abort_listener = False, ex_handlers = False\<rparr>
      in case sig of
           AbortedSignal \<Rightarrow>
             s\<lparr>ex_proc := kill SIGTERM (ex_proc s),
               ex_promise := reject ''Execution aborted'' (ex_promise s)\<rparr>
         | LiveSignal \<Rightarrow> s\<lparr>ex_abort_listener := True, ex_handlers := True\<rparr>
         | NoSignal \<Rightarrow> s\<lparr>ex_handlers := True\<rparr>)"

fun SubprocessSandbox_step :: "exec_state \<Rightarrow> exec_event \<Rightarrow> exec_state" where
  "SubprocessSandbox_step s (OnTimer t) =
     (if armed t (ex_timers s) then
        (let s' = s\<lparr>ex_timers := fired t (ex_timers s)\<rparr> in
         case t of
           ExecutionTimer \<Rightarrow>
             if \<not> ex_killed s' then
               s'\<lparr>ex_killed := True,
                  ex_proc := kill SIGTERM (ex_proc s'),
                  ex_timers := setTimeout GraceTimer 5000 (ex_timers s'),
                  ex_promise := reject timeout_message (ex_promise s')\<rparr>
             else s'
         | GraceTimer \<Rightarrow>
             if exitCode (ex_proc s') = None then s'\<lparr>ex_proc := kill SIGKILL (ex_proc s')\<rparr>
             else s')
      else s)"
| "SubprocessSandbox_step s OnAbort =
     (if ex_abort_listener s then
        (let s' = s\<lparr>ex_abort_listener := False\<rparr> in
         if \<not> ex_killed s' then
           s'\<lparr>ex_killed := True,
              ex_proc := kill SIGTERM (ex_proc s'),
              ex_timers := setTimeout GraceTimer 5000 (clearTimeout ExecutionTimer (ex_timers s')),
              ex_promise := reject ''Execution aborted'' (ex_promise s')\<rparr>
         else s')
      else s)"
| "SubprocessSandbox_step s (OnStdout d) =
     (if ex_handlers s then s\<lparr>ex_stdout := ex_stdout s @ d\<rparr> else s)"
| "SubprocessSandbox_step s (OnStderr d) =
     (if ex_handlers s then s\<lparr>ex_stderr := ex_stderr s @ d\<rparr> else s)"
| "SubprocessSandbox_step s (OnExit code) =
     (let s0 = s\<lparr>ex_proc := exited code (ex_proc s)\<rparr> in
      if ex_handlers s0 then
        (let s' = s0\<lparr>ex_timers := clearTimeout ExecutionTimer (ex_timers s0),
                      ex_abort_listener := False\<rparr> in
         if ex_killed s' then s'
         else if code = Some 0 then s'\<lparr>ex_promise := resolve (ex_stdout s') (ex_promise s')\<rparr>
         else
           (let errorMsg = (if ex_stderr s' \<noteq> [] then ex_stderr s'
                            else if ex_stdout s' \<noteq> [] then ex_stdout s'
                            else ''Process exited with code '' @ exit_code_text code)
            in s'\<lparr>ex_promise := reject errorMsg (ex_promise s')\<rparr>))
      else s0)"
| "SubprocessSandbox_step s (OnError m) =
     (if ex_handlers s then
        (let s' = s\<lparr>ex_timers := clearTimeout ExecutionTimer (ex_timers s),
                     ex_abort_listener := False\<rparr> in
         if \<not> ex_killed s' then
           s'\<lparr>ex_promise := reject (''Failed to spawn Python process: '' @ m) (ex_promise s')\<rparr>
         else s')
      else s)"

subsection \<open>DockerSandbox\<close>

text \<open>
  The container handle is \<^verbatim>\<open>string | null\<close> and the sources test it for truthiness:
  \<^verbatim>\<open>null\<close> and the empty string are falsy. \<open>commands\<close> records the commands given to
  \<^verbatim>\<open>execAsync\<close>, \<open>console\<close> the messages given to \<^verbatim>\<open>console.error\<close>, and
  \<open>cleanupInterval\<close> the period of the reaper's interval timer while it is set.
\<close>

record docker_state =
  containerId :: "string option"
  lastUsed :: int
  sessionId :: string
  cleanupInterval :: "int option"
  commands :: "string list"
  console :: "string list"

definition truthy_id :: "string option \<Rightarrow> bool" where
  "truthy_id c = (case c of None \<Rightarrow> False | Some i \<Rightarrow> i \<noteq> [])"

text \<open>
  The outcome of one \<^verbatim>\<open>execAsync\<close> call: the command's standard output, or the
  message of the error it rejects with.
\<close>

datatype exec_result = ExecOk string | ExecFailed string

text \<open>
  \<^verbatim>\<open>String.prototype.trim\<close> strips white space and line terminators from both ends. A
  \<open>char\<close> is a code unit below 256, and among those they are the six ASCII ones and the
  no-break space U+00A0.
\<close>

definition is_space :: "char \<Rightarrow> bool" where
  "is_space c =
     (c \<in> set [CHR '' '', CHR 0x09, CHR 0x0A, CHR 0x0B, CHR 0x0C, CHR 0x0D, CHR 0xA0])"

definition trim :: "string \<Rightarrow> string" where
  "trim s = rev (dropWhile is_space (rev (dropWhile is_space s)))"

definition DockerSandbox_new :: "string \<Rightarrow> docker_state" where
  "DockerSandbox_new session =
     \<lparr>containerId = None, lastUsed = 0, sessionId = session, cleanupInterval = Some 60000,
      commands = [], console = []\<rparr>"

text \<open>
  \<^verbatim>\<open>stopContainer\<close>, given the outcome of \<^verbatim>\<open>docker stop\<close> should it run. Every method
  returns the error it throws (\<open>Inl\<close>) or its value, together with the state it leaves.
\<close>

definition stopContainer :: "exec_result \<Rightarrow> docker_state \<Rightarrow> (exn + unit) \<times> docker_state" where
  "stopContainer stop_outcome s =
     (case containerId s of
        None \<Rightarrow> (Inr (), s)
      | Some cid \<Rightarrow>
          if cid = [] then (Inr (), s)
          else
            (let s1 = s\<lparr>commands := commands s @ [''docker stop '' @ cid]\<rparr>;
                 s2 = (case stop_outcome of
                         ExecOk out \<Rightarrow> s1
                       | ExecFailed m \<Rightarrow>
                           s1\<lparr>console := console s1 @ [''Failed to stop container '' @ cid @ '':'']\<rparr>)
             in (Inr (), s2\<lparr>containerId := None\<rparr>)))"

definition cleanupExpired :: "int \<Rightarrow> exec_result \<Rightarrow> docker_state \<Rightarrow> docker_state" where
  "cleanupExpired now stop_outcome s =
     (if truthy_id (containerId s) \<and> now - lastUsed s > EXECUTION_TIMEOUT
      then snd (stopContainer stop_outcome s) else s)"

text \<open>One tick of the interval timer that \<^verbatim>\<open>startCleanupTimer\<close> sets.\<close>

definition reaper_tick :: "docker_state \<Rightarrow> int \<times> exec_result \<Rightarrow> docker_state" where
  "reaper_tick s tick =
     (if cleanupInterval s \<noteq> None then cleanupExpired (fst tick) (snd tick) s else s)"

text \<open>
  What \<^verbatim>\<open>getOrCreateContainer\<close> takes from its environment: the readings of
  \<^verbatim>\<open>Date.now()\<close> at the reuse test, at the refresh of a reused handle, in the container
  name and after \<^verbatim>\<open>docker run\<close> returned, and the outcomes of \<^verbatim>\<open>docker stop\<close> and
  \<^verbatim>\<open>docker run\<close> should they run.
\<close>

record acquire_env =
  t_check :: int
  t_touch :: int
  t_name :: int
  t_created :: int
  stop_result :: exec_result
  run_result :: exec_result

definition docker_run_command :: "string \<Rightarrow> string \<Rightarrow> string" where
  "docker_run_command containerName cwd =
     ''docker run -d --rm --network none --name '' @ containerName @ '' ''
     @ ''-v '' @ [CHR 0x22] @ cwd @ '':/workspace:ro'' @ [CHR 0x22] @ '' ''
     @ ''--memory 512m --cpus 1.0 ''
     @ ''python:3.12-slim tail -f /dev/null''"

text \<open>
  The second half of \<^verbatim>\<open>getOrCreateContainer\<close>: stop the old container if there is
  one, then create a new one.
\<close>

definition createContainer ::
  "acquire_env \<Rightarrow> string \<Rightarrow> docker_state \<Rightarrow> (exn + string) \<times> docker_state" where
  "createContainer e cwd s =
     (let s1 = (if truthy_id (containerId s) then snd (stopContainer (stop_result e) s) else s);
          containerName = ''pi-ptc-'' @ sessionId s1 @ ''-'' @ decimal_int (t_name e);
          s2 = s1\<lparr>commands := commands s1 @ [docker_run_command containerName cwd]\<rparr>
      in case run_result e of
           ExecOk out \<Rightarrow>
             (Inr (trim out), s2\<lparr>containerId := Some (trim out), lastUsed := t_created e\<rparr>)
         | ExecFailed m \<Rightarrow> (Inl (Error (''Failed to create Docker container: '' @ m)), s2))"

definition getOrCreateContainer ::
  "acquire_env \<Rightarrow> string \<Rightarrow> docker_state \<Rightarrow> (exn + string) \<times> docker_state" where
  "getOrCreateContainer e cwd s =
     (case containerId s of
        Some cid \<Rightarrow>
          if cid \<noteq> [] \<and> t_check e - lastUsed s < EXECUTION_TIMEOUT
          then (Inr cid, s\<lparr>lastUsed := t_touch e\<rparr>)
          else createContainer e cwd s
      | None \<Rightarrow> createContainer e cwd s)"

definition DockerSandbox_cleanup :: "exec_result \<Rightarrow> docker_state \<Rightarrow> (exn + unit) \<times> docker_state" where
  "DockerSandbox_cleanup stop_outcome s =
     stopContainer stop_outcome
       (if cleanupInterval s \<noteq> None then s\<lparr>cleanupInterval := None\<rparr> else s)"

text \<open>
  The states a \<open>DockerSandbox\<close> goes through when every successful \<^verbatim>\<open>docker run -d\<close>
  prints the id of the container it created, which is not blank.
\<close>

definition prints_id :: "acquire_env \<Rightarrow> bool" where
  "prints_id e = (case run_result e of ExecOk out \<Rightarrow> trim out \<noteq> [] | ExecFailed m \<Rightarrow> True)"

inductive reachable :: "docker_state \<Rightarrow> bool" where
  new: "reachable (DockerSandbox_new session)"
| acquire: "reachable s \<Longrightarrow> prints_id e \<Longrightarrow> reachable (snd (getOrCreateContainer e cwd s))"
| tick: "reachable s \<Longrightarrow> reachable (reaper_tick s t)"
| cleanup: "reachable s \<Longrightarrow> reachable (snd (DockerSandbox_cleanup r s))"

text \<open>
  \<^verbatim>\<open>DockerSandbox.execute\<close> acquires the container and then runs the program with
  \<^verbatim>\<open>docker exec\<close>; \<open>DockerSandbox_spawn_args\<close> are the arguments of that process.
\<close>

definition DockerSandbox_spawn_args :: "string \<Rightarrow> string \<Rightarrow> string list" where
  "DockerSandbox_spawn_args cid code = [''exec'', ''-i'', cid, ''python3'', ''-u'', ''-c'', code]"

definition DockerSandbox_started :: "signal_arg \<Rightarrow> exec_state" where
  "DockerSandbox_started sig =
     (let s = \<lparr>ex_stdout = [], ex_stderr = [], ex_killed = False, ex_promise = Pending,
                ex_proc = spawned,
                ex_timers = setTimeout ExecutionTimer EXECUTION_TIMEOUT [],
                ex_abort_listener = False, ex_handlers = False\<rparr>
      in case sig of
           AbortedSignal \<Rightarrow>
             s\<lparr>ex_proc := kill SIGTERM (ex_proc s),
               ex_promise := reject ''Execution aborted'' (ex_promise s)\<rparr>
         | LiveSignal \<Rightarrow> s\<lparr>ex_abort_listener := True, ex_handlers := True\<rparr>
         | NoSignal \<Rightarrow> s\<lparr>ex_handlers := True\<rparr>)"

definition DockerSandbox_execute ::
  "acquire_env \<Rightarrow> string \<Rightarrow> string \<Rightarrow> signal_arg \<Rightarrow> docker_state \<Rightarrow>
     (exn + string list \<times> exec_state) \<times> docker_state" where
  "DockerSandbox_execute e code cwd sig s =
     (case getOrCreateContainer e cwd s of
        (Inl err, s') \<Rightarrow> (Inl err, s')
      | (Inr cid, s') \<Rightarrow> (Inr (DockerSandbox_spawn_args cid code, DockerSandbox_started sig), s'))"


subsection \<open>The two backends behind the SandboxManager interface\<close>

datatype sandbox = SubprocessSandbox | DockerSandbox docker_state

fun sandbox_cleanup :: "exec_result \<Rightarrow> sandbox \<Rightarrow> (exn + unit) \<times> sandbox" where
  "sandbox_cleanup stop_outcome SubprocessSandbox = (Inr (), SubprocessSandbox)"
| "sandbox_cleanup stop_outcome (DockerSandbox d) =
     (case DockerSandbox_cleanup stop_outcome d of (r, d') \<Rightarrow> (r, DockerSandbox d'))"

fun docker_commands :: "sandbox \<Rightarrow> string list" where
  "docker_commands SubprocessSandbox = []"
| "docker_commands (DockerSandbox d) = commands d"

section \<open>Properties of truncateOutput\<close>

lemma decimal_MAX_OUTPUT_SIZE: "decimal MAX_OUTPUT_SIZE = ''100000''"
  by (simp add: MAX_OUTPUT_SIZE_def decimal.simps digit_def)

lemma decimal_150000: "decimal 150000 = ''150000''"
  by (simp add: decimal.simps digit_def)

lemma truncateOutput_cases:
  "(length out \<le> 100000 \<longrightarrow> truncateOutput out = out) \<and>
   (100000 < length out \<longrightarrow>
      truncateOutput out =
        take 100000 out @ ''\<newline>\<newline>[Output truncated - showing first 100000 characters of ''
          @ decimal (length out) @ '']'' \<and>
      length (take 100000 out) = 100000) \<and>
   (length out = 150000 \<longrightarrow>
      truncateOutput out =
        take 100000 out
          @ ''\<newline>\<newline>[Output truncated - showing first 100000 characters of 150000]'')"
  by (simp add: truncateOutput_def Let_def decimal_MAX_OUTPUT_SIZE decimal_150000)
    (simp add: MAX_OUTPUT_SIZE_def)

lemma CodeExecutor_outcome_complete:
  "completion s = Pending \<Longrightarrow>
   CodeExecutor_outcome (handleMessage env line (Handled (Complete output)) s) =
     Resolved (truncateOutput
       (if stdout_buf s \<noteq> [] then stdout_buf s @ ''\<newline>'' @ output else output))"
  by (simp add: CodeExecutor_outcome_def resolve_def Let_def)

text \<open>
  C4. \<open>truncateOutput\<close> returns an output of at most 100,000 characters unchanged. A
  longer output becomes exactly its first 100,000 characters followed by the notice, which
  states the original length in decimal; for 150,000 characters the notice reads 150000.
  \<open>execute\<close> applies it once, to the output assembled on the \<^verbatim>\<open>complete\<close> message: the
  captured console text, a newline and the declared output.
\<close>

theorem truncateOutput_ceiling:
  "(length out \<le> 100000 \<longrightarrow> truncateOutput out = out) \<and>
   (100000 < length out \<longrightarrow>
      truncateOutput out =
        take 100000 out @ ''\<newline>\<newline>[Output truncated - showing first 100000 characters of ''
          @ decimal (length out) @ '']'' \<and>
      length (take 100000 out) = 100000) \<and>
   (length out = 150000 \<longrightarrow>
      truncateOutput out =
        take 100000 out
          @ ''\<newline>\<newline>[Output truncated - showing first 100000 characters of 150000]'') \<and>
   (completion s = Pending \<longrightarrow>
      CodeExecutor_outcome (handleMessage env line (Handled (Complete output)) s) =
        Resolved (truncateOutput
          (if stdout_buf s \<noteq> [] then stdout_buf s @ ''\<newline>'' @ output else output)))"
  using truncateOutput_cases [of out] CodeExecutor_outcome_complete [of s env line "output"] by blast

theorem truncateOutput_ceiling_witness:
  "truncateOutput ''abc'' = ''abc'' \<and>
   truncateOutput (replicate 150000 CHR ''x'') =
     replicate 100000 CHR ''x''
       @ ''\<newline>\<newline>[Output truncated - showing first 100000 characters of 150000]'' \<and>
   completion
     (capture ''printed''
        (RpcProtocol_new
           \<lparr>tools = Map.empty, executeTool = (\<lambda>n p. Fulfilled Undefined),
            has_signal = False, has_onUpdate = False\<rparr>
           ''return 2'')) = Pending \<and>
   CodeExecutor_outcome
     (handleMessage
        \<lparr>tools = Map.empty, executeTool = (\<lambda>n p. Fulfilled Undefined),
         has_signal = False, has_onUpdate = False\<rparr>
        ''{}'' (Handled (Complete ''2''))
        (capture ''printed''
           (RpcProtocol_new
              \<lparr>tools = Map.empty, executeTool = (\<lambda>n p. Fulfilled Undefined),
               has_signal = False, has_onUpdate = False\<rparr>
              ''return 2''))) =
     Resolved (truncateOutput ''printed\<newline>2'')"
proof -
  let ?env = "\<lparr>tools = Map.empty, executeTool = (\<lambda>n p. Fulfilled Undefined),
               has_signal = False, has_onUpdate = False\<rparr>"
  let ?s = "capture ''printed'' (RpcProtocol_new ?env ''return 2'')"
  have pending: "completion ?s = Pending" and buffer: "stdout_buf ?s = ''printed''"
    by (simp_all add: capture_def RpcProtocol_new_def)
  show ?thesis
    using pending buffer
      truncateOutput_ceiling [of "''abc''" ?s ?env "''{}''" "''2''"]
      truncateOutput_ceiling [of "replicate 150000 CHR ''x''" ?s ?env "''{}''" "''2''"]
    by (simp add: decimal_150000)
qed

section \<open>Properties of schemaToPythonType\<close>

lemma schemaToPythonType_total:
  "schema \<noteq> Undefined \<Longrightarrow> schema \<noteq> Null \<Longrightarrow> \<exists>t. schemaToPythonType schema = Inr t"
proof (induction schema rule: schemaToPythonType.induct)
  case (1 schema)
  obtain kind where kind: "getProp schema ''type'' = Inr kind"
    using "1.prems" by (cases schema) auto
  obtain items where items: "getProp schema ''items'' = Inr items"
    using "1.prems" by (cases schema) auto
  show ?case
  proof (cases "kind = Str ''array'' \<and> truthy items")
    case True
    then have "items \<noteq> Undefined" "items \<noteq> Null" by auto
    with "1.IH" [OF kind _ _ _ _ _ items] True
    obtain t where "schemaToPythonType items = Inr t" by auto
    with True kind items show ?thesis
      by (subst schemaToPythonType.simps) simp
  next
    case False
    with kind items show ?thesis
      by (subst schemaToPythonType.simps) auto
  qed
qed

text \<open>
  The recursion on \<^verbatim>\<open>items\<close> is not bounded. The mapping cut off after one nested call
  agrees with the function on every schema that is not an array and on every array whose
  items are not arrays; on an array of arrays it gives \<open>List[List[Any]]\<close>, whatever the
  inner items are, where the function gives \<open>List[List[int]]\<close> for integers and
  \<open>List[List[str]]\<close> for strings. For each schema some depth suffices, but none does for
  all of them.
\<close>

lemma schemaToPythonType_depth_flat:
  assumes "getProp schema ''type'' = Inr kind" and "kind \<noteq> Str ''array''"
  shows "schemaToPythonType_depth d schema = schemaToPythonType schema"
  using assms by (subst schemaToPythonType_depth.simps, subst schemaToPythonType.simps) simp

lemma schemaToPythonType_one_level_flat_items:
  assumes "getProp schema ''type'' = Inr (Str ''array'')"
    and "getProp schema ''items'' = Inr items"
    and "getProp items ''type'' = Inr kind" and "kind \<noteq> Str ''array''"
  shows "schemaToPythonType_one_level schema = schemaToPythonType schema"
proof -
  have "schemaToPythonType_depth 0 items = schemaToPythonType items"
    using assms(3,4) by (rule schemaToPythonType_depth_flat)
  then show ?thesis
    unfolding schemaToPythonType_one_level_def using assms(1,2)
    by (subst schemaToPythonType_depth.simps, subst schemaToPythonType.simps) simp
qed

lemma schemaToPythonType_depth_enough:
  "\<exists>d. \<forall>n\<ge>d. schemaToPythonType_depth n schema = schemaToPythonType schema"
proof (induction schema rule: schemaToPythonType.induct)
  case (1 schema)
  show ?case
  proof (cases "getProp schema ''type''")
    case (Inl e)
    then have "schemaToPythonType_depth n schema = schemaToPythonType schema" for n
      by (subst schemaToPythonType_depth.simps, subst schemaToPythonType.simps) simp
    then show ?thesis by blast
  next
    case (Inr kind)
    show ?thesis
    proof (cases "kind = Str ''array''")
      case False
      with Inr have "schemaToPythonType_depth n schema = schemaToPythonType schema" for n
        by (rule schemaToPythonType_depth_flat)
      then show ?thesis by blast
    next
      case True
      from Inr obtain items where items: "getProp schema ''items'' = Inr items"
        by (cases schema) auto
      show ?thesis
      proof (cases "truthy items")
        case False
        with Inr True items
        have "schemaToPythonType_depth n schema = schemaToPythonType schema" for n
          by (subst schemaToPythonType_depth.simps, subst schemaToPythonType.simps) simp
        then show ?thesis by blast
      next
        case truthy: True
        from "1.IH" [OF Inr _ _ _ _ _ items truthy] True
        obtain d where d: "\<forall>n\<ge>d. schemaToPythonType_depth n items = schemaToPythonType items"
          by auto
        have "schemaToPythonType_depth n schema = schemaToPythonType schema" if "Suc d \<le> n" for n
        proof -
          from that obtain m where n: "n = Suc m" and "d \<le> m" by (cases n) auto
          with d have "schemaToPythonType_depth m items = schemaToPythonType items" by simp
          with Inr True items truthy n show ?thesis
            by (subst schemaToPythonType_depth.simps, subst schemaToPythonType.simps) simp
        qed
        then show ?thesis by blast
      qed
    qed
  qed
qed

lemma truthy_nested_arrays: "truthy schema \<Longrightarrow> truthy (nested_arrays n schema)"
  by (cases n) simp_all

lemma schemaToPythonType_nested_arrays:
  assumes "schemaToPythonType schema = Inr t" and "truthy schema"
  shows "schemaToPythonType (nested_arrays n schema) =
           Inr (concat (replicate n ''List['') @ t @ replicate n CHR '']'')"
proof (induction n)
  case 0
  from assms(1) show ?case by simp
next
  case (Suc n)
  have "replicate n CHR '']'' @ '']'' = CHR '']'' # replicate n CHR '']''"
    by (simp add: replicate_append_same)
  with Suc truthy_nested_arrays [OF assms(2), of n] show ?case
    by (subst schemaToPythonType.simps) simp
qed

lemma schemaToPythonType_depth_nested_arrays:
  "schemaToPythonType_depth d (nested_arrays (Suc d) (Obj [(''type'', Str ''integer'')])) =
     Inr (concat (replicate (Suc d) ''List['') @ ''Any'' @ replicate (Suc d) CHR '']'')"
proof (induction d)
  case 0
  show ?case by (subst schemaToPythonType_depth.simps) simp
next
  case (Suc d)
  have "replicate d CHR '']'' @ '']'' = CHR '']'' # replicate d CHR '']''"
    by (simp add: replicate_append_same)
  with Suc show ?case
    by (subst schemaToPythonType_depth.simps) simp
qed

lemma schemaToPythonType_no_depth_suffices:
  "schemaToPythonType_depth d (nested_arrays (Suc d) (Obj [(''type'', Str ''integer'')])) \<noteq>
   schemaToPythonType (nested_arrays (Suc d) (Obj [(''type'', Str ''integer'')]))"
proof -
  have "schemaToPythonType (Obj [(''type'', Str ''integer'')]) = Inr ''int''"
    by (subst schemaToPythonType.simps) simp
  then have "schemaToPythonType (nested_arrays (Suc d) (Obj [(''type'', Str ''integer'')])) =
      Inr (concat (replicate (Suc d) ''List['') @ ''int'' @ replicate (Suc d) CHR '']'')"
    by (rule schemaToPythonType_nested_arrays) simp
  then show ?thesis
    unfolding schemaToPythonType_depth_nested_arrays by simp
qed

text \<open>
  An array of arrays of integers, and one of strings: the function's result depends on the
  schema two levels down, which the mapping cut off after one nested call never reads.
\<close>

theorem schemaToPythonType_recurses_past_one_level:
  "schemaToPythonType
     (Obj [(''type'', Str ''array''),
           (''items'', Obj [(''type'', Str ''array''), (''items'', Obj [(''type'', Str ''integer'')])])])
     = Inr ''List[List[int]]'' \<and>
   schemaToPythonType
     (Obj [(''type'', Str ''array''),
           (''items'', Obj [(''type'', Str ''array''), (''items'', Obj [(''type'', Str ''string'')])])])
     = Inr ''List[List[str]]'' \<and>
   schemaToPythonType_one_level
     (Obj [(''type'', Str ''array''),
           (''items'', Obj [(''type'', Str ''array''), (''items'', Obj [(''type'', Str ''integer'')])])])
     = Inr ''List[List[Any]]'' \<and>
   schemaToPythonType_one_level
     (Obj [(''type'', Str ''array''),
           (''items'', Obj [(''type'', Str ''array''), (''items'', Obj [(''type'', Str ''integer'')])])])
     \<noteq> schemaToPythonType
     (Obj [(''type'', Str ''array''),
           (''items'', Obj [(''type'', Str ''array''), (''items'', Obj [(''type'', Str ''integer'')])])])"
  by (simp add: schemaToPythonType.simps schemaToPythonType_depth.simps
      schemaToPythonType_one_level_def)

text \<open>
  C8, with the bound on the recursion removed. Each declared primitive kind maps to its
  Python type; any other value of \<^verbatim>\<open>type\<close>, and a schema with no \<^verbatim>\<open>type\<close> at all, maps
  to \<open>Any\<close>; an array maps to \<open>List[T]\<close>, where \<open>T\<close> is the result of the function itself
  on the \<^verbatim>\<open>items\<close> schema (which never fails), so that arrays nested to any depth give
  lists nested to the same depth, and \<open>Any\<close> when \<^verbatim>\<open>items\<close> is absent or falsy.
\<close>

theorem schemaToPythonType_kinds:
  assumes "getProp schema ''type'' = Inr kind"
  shows
    "(kind = Str ''string'' \<longrightarrow> schemaToPythonType schema = Inr ''str'') \<and>
     (kind = Str ''number'' \<longrightarrow> schemaToPythonType schema = Inr ''float'') \<and>
     (kind = Str ''integer'' \<longrightarrow> schemaToPythonType schema = Inr ''int'') \<and>
     (kind = Str ''boolean'' \<longrightarrow> schemaToPythonType schema = Inr ''bool'') \<and>
     (kind = Str ''null'' \<longrightarrow> schemaToPythonType schema = Inr ''None'') \<and>
     (kind = Str ''object'' \<longrightarrow> schemaToPythonType schema = Inr ''Dict[str, Any]'') \<and>
     (kind \<notin> {Str ''string'', Str ''number'', Str ''integer'', Str ''boolean'', Str ''array'',
               Str ''object'', Str ''null''} \<longrightarrow>
        schemaToPythonType schema = Inr ''Any'') \<and>
     (kind = Str ''array'' \<longrightarrow>
        (\<exists>items. getProp schema ''items'' = Inr items \<and>
           (if truthy items
            then \<exists>T. schemaToPythonType items = Inr T \<and>
                     schemaToPythonType schema = Inr (''List['' @ T @ '']'')
            else schemaToPythonType schema = Inr ''List[Any]'')))"
proof -
  obtain items where items: "getProp schema ''items'' = Inr items"
    using assms by (cases schema) auto
  have array: "\<exists>T. schemaToPythonType items = Inr T \<and>
      schemaToPythonType schema = Inr (''List['' @ T @ '']'')"
    if "kind = Str ''array''" "truthy items"
  proof -
    from that(2) have "items \<noteq> Undefined" "items \<noteq> Null" by auto
    then obtain T where T: "schemaToPythonType items = Inr T"
      using schemaToPythonType_total by blast
    have "schemaToPythonType schema = Inr (''List['' @ T @ '']'')"
      using assms items that T by (subst schemaToPythonType.simps) simp
    with T show ?thesis by blast
  qed
  have no_items: "schemaToPythonType schema = Inr ''List[Any]''"
    if "kind = Str ''array''" "\<not> truthy items"
    using assms items that by (subst schemaToPythonType.simps) simp
  have rest: "kind \<noteq> Str ''array'' \<Longrightarrow> ?thesis"
    using assms by (subst (1 2 3 4 5 6 7) schemaToPythonType.simps) auto
  show ?thesis
  proof (cases "kind = Str ''array''")
    case True
    then show ?thesis using array no_items items
      by (cases "truthy items") auto
  next
    case False
    then show ?thesis by (rule rest)
  qed
qed

theorem schemaToPythonType_kinds_witness:
  "getProp (Obj [(''type'', Str ''array''), (''items'', Obj [(''type'', Str ''integer'')])]) ''type''
     = Inr (Str ''array'') \<and>
   schemaToPythonType (Obj [(''type'', Str ''array''), (''items'', Obj [(''type'', Str ''integer'')])])
     = Inr ''List[int]'' \<and>
   schemaToPythonType
     (Obj [(''type'', Str ''array''),
           (''items'', Obj [(''type'', Str ''array''), (''items'', Obj [(''type'', Str ''integer'')])])])
     = Inr ''List[List[int]]'' \<and>
   schemaToPythonType (Obj [(''type'', Str ''array'')]) = Inr ''List[Any]'' \<and>
   schemaToPythonType (Obj [(''type'', Str ''string'')]) = Inr ''str'' \<and>
   schemaToPythonType (Obj [(''type'', Str ''tuple'')]) = Inr ''Any'' \<and>
   schemaToPythonType (Obj [(''description'', Str ''no type'')]) = Inr ''Any''"
  using
    schemaToPythonType_kinds
      [of "Obj [(''type'', Str ''array''),
                (''items'', Obj [(''type'', Str ''array''), (''items'', Obj [(''type'', Str ''integer'')])])]"
        "Str ''array''"]
    schemaToPythonType_kinds
      [of "Obj [(''type'', Str ''array''), (''items'', Obj [(''type'', Str ''integer'')])]"
        "Str ''array''"]
    schemaToPythonType_kinds [of "Obj [(''type'', Str ''array'')]" "Str ''array''"]
    schemaToPythonType_kinds [of "Obj [(''type'', Str ''integer'')]" "Str ''integer''"]
    schemaToPythonType_kinds [of "Obj [(''type'', Str ''string'')]" "Str ''string''"]
    schemaToPythonType_kinds [of "Obj [(''type'', Str ''tuple'')]" "Str ''tuple''"]
    schemaToPythonType_kinds [of "Obj [(''description'', Str ''no type'')]" Undefined]
  by simp

section \<open>Properties of the stub signature\<close>




lemma isOptional_known:
  "paramEntry required n sch = Inr p \<Longrightarrow> isOptional sch = Inr True \<or> isOptional sch = Inr False"
  by (auto simp add: paramEntry_def split: sum.splits)


lemma paramList_of_length: "paramList_of required es = Inr ps \<Longrightarrow> length ps = length es"
  by (induction es arbitrary: ps) (auto split: sum.splits)







text \<open>
  The hypothesis on the names is needed, since the entries are split by the substring
  \<open>= None\<close> and not by the flag: a key that contains it, which is no Python identifier,
  is placed after the separator although it is rendered without default.
\<close>

lemma stub_signature_marker_in_name:
  "generateToolWrapper_signature
     \<lparr>tool_name = ''t'', tool_description = ''demo'',
      tool_parameters =
        Obj [(''type'', Str ''object''),
             (''properties'',
                Obj [(''y'', Obj [(''type'', Str ''integer'')]),
                     (''x= None'', Obj [(''type'', Str ''string'')])]),
             (''required'', Arr [Str ''x= None''])]\<rparr>
   = Inr ''async def t(\<newline>    *,\<newline>    y: Optional[int] = None,\<newline>    x= None: str\<newline>) -> str:''"
  by code_simp

section \<open>Properties of DockerSandbox\<close>

lemma stopContainer_returns: "fst (stopContainer r s) = Inr ()"
  by (simp add: stopContainer_def Let_def split: option.splits exec_result.splits)

lemma stopContainer_falsy: "\<not> truthy_id (containerId (snd (stopContainer r s)))"
  by (simp add: stopContainer_def truthy_id_def Let_def split: option.splits exec_result.splits)

lemma stopContainer_null:
  "containerId s \<noteq> Some [] \<Longrightarrow> containerId (snd (stopContainer r s)) = None"
  by (simp add: stopContainer_def Let_def split: option.splits exec_result.splits)

lemma stopContainer_idle:
  "\<not> truthy_id (containerId s) \<Longrightarrow> stopContainer r s = (Inr (), s)"
  by (simp add: stopContainer_def truthy_id_def split: option.splits)

lemma stopContainer_commands:
  "commands (snd (stopContainer r s)) =
     commands s @ (case containerId s of
                     None \<Rightarrow> []
                   | Some cid \<Rightarrow> if cid = [] then [] else [''docker stop '' @ cid])"
  by (simp add: stopContainer_def Let_def split: option.splits exec_result.splits)

lemma stopContainer_keeps:
  "lastUsed (snd (stopContainer r s)) = lastUsed s"
  "sessionId (snd (stopContainer r s)) = sessionId s"
  "cleanupInterval (snd (stopContainer r s)) = cleanupInterval s"
  by (simp_all add: stopContainer_def Let_def split: option.splits exec_result.splits)

lemma createContainer_after_stop:
  "\<not> truthy_id (containerId s) \<Longrightarrow>
   commands (snd (createContainer e cwd s)) =
     commands s @ [docker_run_command (''pi-ptc-'' @ sessionId s @ ''-'' @ decimal_int (t_name e)) cwd]"
  by (simp add: createContainer_def Let_def split: exec_result.splits)

lemma getOrCreateContainer_falsy:
  "\<not> truthy_id (containerId s) \<Longrightarrow> getOrCreateContainer e cwd s = createContainer e cwd s"
  by (simp add: getOrCreateContainer_def truthy_id_def split: option.splits)

lemma DockerSandbox_cleanup_returns: "fst (DockerSandbox_cleanup r d) = Inr ()"
  by (simp add: DockerSandbox_cleanup_def stopContainer_returns)

lemma DockerSandbox_cleanup_falsy:
  "\<not> truthy_id (containerId (snd (DockerSandbox_cleanup r d)))"
  by (simp add: DockerSandbox_cleanup_def stopContainer_falsy)

lemma DockerSandbox_cleanup_interval:
  "cleanupInterval (snd (DockerSandbox_cleanup r d)) = None"
  by (simp add: DockerSandbox_cleanup_def stopContainer_keeps)

lemma DockerSandbox_cleanup_null:
  "containerId d \<noteq> Some [] \<Longrightarrow> containerId (snd (DockerSandbox_cleanup r d)) = None"
  by (simp add: DockerSandbox_cleanup_def stopContainer_null)

lemma DockerSandbox_cleanup_commands:
  "commands (snd (DockerSandbox_cleanup r d)) =
     commands d @ (case containerId d of
                     None \<Rightarrow> []
                   | Some cid \<Rightarrow> if cid = [] then [] else [''docker stop '' @ cid])"
  by (simp add: DockerSandbox_cleanup_def stopContainer_commands)

lemma DockerSandbox_cleanup_again:
  "DockerSandbox_cleanup r2 (snd (DockerSandbox_cleanup r1 d)) =
     (Inr (), snd (DockerSandbox_cleanup r1 d))"
proof -
  let ?d' = "snd (DockerSandbox_cleanup r1 d)"
  have "cleanupInterval ?d' = None" by (rule DockerSandbox_cleanup_interval)
  moreover have "\<not> truthy_id (containerId ?d')" by (rule DockerSandbox_cleanup_falsy)
  ultimately show ?thesis
    by (simp add: DockerSandbox_cleanup_def [of r2] stopContainer_idle)
qed

lemma docker_run_command_text:
  \<open>docker_run_command containerName cwd =
     ''docker run -d --rm --network none --name '' @ containerName
       @ '' -v "'' @ cwd @ '':/workspace:ro" --memory 512m --cpus 1.0 python:3.12-slim tail -f /dev/null''\<close>
  by (simp add: docker_run_command_def)

lemma getOrCreateContainer_reuse:
  "containerId s = Some cid \<Longrightarrow> cid \<noteq> [] \<Longrightarrow> t_check e - lastUsed s < EXECUTION_TIMEOUT \<Longrightarrow>
   getOrCreateContainer e cwd s = (Inr cid, s\<lparr>lastUsed := t_touch e\<rparr>)"
  by (simp add: getOrCreateContainer_def)

lemma getOrCreateContainer_create:
  "\<not> (truthy_id (containerId s) \<and> t_check e - lastUsed s < EXECUTION_TIMEOUT) \<Longrightarrow>
   getOrCreateContainer e cwd s = createContainer e cwd s"
  by (auto simp add: getOrCreateContainer_def truthy_id_def split: option.splits)

lemma createContainer_commands:
  "commands (snd (createContainer e cwd s)) =
     commands s
     @ (case containerId s of
          None \<Rightarrow> []
        | Some cid \<Rightarrow> if cid = [] then [] else [''docker stop '' @ cid])
     @ [docker_run_command (''pi-ptc-'' @ sessionId s @ ''-'' @ decimal_int (t_name e)) cwd]"
  by (simp add: createContainer_def Let_def stopContainer_commands stopContainer_keeps
      truthy_id_def split: exec_result.splits option.splits)

lemma createContainer_ok:
  "run_result e = ExecOk out \<Longrightarrow>
   fst (createContainer e cwd s) = Inr (trim out) \<and>
   containerId (snd (createContainer e cwd s)) = Some (trim out) \<and>
   lastUsed (snd (createContainer e cwd s)) = t_created e"
  by (simp add: createContainer_def Let_def)

lemma createContainer_failed:
  "run_result e = ExecFailed m \<Longrightarrow>
   fst (createContainer e cwd s) = Inl (Error (''Failed to create Docker container: '' @ m)) \<and>
   \<not> truthy_id (containerId (snd (createContainer e cwd s)))"
  by (simp add: createContainer_def Let_def stopContainer_falsy)

lemma stale_replacement_null:
  assumes "\<not> (truthy_id (containerId s) \<and> t_check e - lastUsed s < EXECUTION_TIMEOUT)"
    and "run_result e = ExecFailed m" and "containerId s \<noteq> Some []"
  shows "fst (getOrCreateContainer e cwd s) = Inl (Error (''Failed to create Docker container: '' @ m)) \<and>
         containerId (snd (getOrCreateContainer e cwd s)) = None"
proof -
  have "getOrCreateContainer e cwd s = createContainer e cwd s"
    using assms(1) by (rule getOrCreateContainer_create)
  moreover have "containerId (snd (createContainer e cwd s)) = None"
    using assms(2,3)
    by (auto simp add: createContainer_def Let_def stopContainer_null truthy_id_def
        split: option.splits)
  ultimately show ?thesis using assms(2) by (simp add: createContainer_failed)
qed

lemma reaper_tick_cases:
  "cleanupInterval s \<noteq> None \<Longrightarrow>
   reaper_tick s (now, r) =
     (if truthy_id (containerId s) \<and> now - lastUsed s > EXECUTION_TIMEOUT
      then snd (stopContainer r s) else s)"
  by (simp add: reaper_tick_def cleanupExpired_def)

lemma reaper_tick_within:
  "fst tick - lastUsed s \<le> EXECUTION_TIMEOUT \<Longrightarrow> reaper_tick s tick = s"
  by (simp add: reaper_tick_def cleanupExpired_def)

lemma reaper_ticks_within:
  "\<forall>tick \<in> set ticks. fst tick - lastUsed s \<le> EXECUTION_TIMEOUT \<Longrightarrow> foldl reaper_tick s ticks = s"
  by (induction ticks) (simp_all add: reaper_tick_within)

lemma DockerSandbox_execute_reuse:
  assumes "containerId s = Some cid" "cid \<noteq> []" "t_check e - lastUsed s < EXECUTION_TIMEOUT"
  shows "DockerSandbox_execute e code cwd sig s =
     (Inr (DockerSandbox_spawn_args cid code, DockerSandbox_started sig), s\<lparr>lastUsed := t_touch e\<rparr>)"
  using assms by (simp add: DockerSandbox_execute_def getOrCreateContainer_reuse)

lemma sequential_executions_share:
  assumes first: "DockerSandbox_execute e1 code1 cwd1 sig1 s = (Inr (args1, st1), s1)"
    and handle: "containerId s1 \<noteq> Some []"
    and ticks: "\<forall>tick \<in> set ticks. fst tick - lastUsed s1 \<le> EXECUTION_TIMEOUT"
    and window: "t_check e2 - lastUsed s1 < EXECUTION_TIMEOUT"
  shows "\<exists>cid. args1 = DockerSandbox_spawn_args cid code1 \<and>
           DockerSandbox_execute e2 code2 cwd2 sig2 (foldl reaper_tick s1 ticks) =
             (Inr (DockerSandbox_spawn_args cid code2, DockerSandbox_started sig2),
              s1\<lparr>lastUsed := t_touch e2\<rparr>)"
proof -
  from first obtain cid where cid: "getOrCreateContainer e1 cwd1 s = (Inr cid, s1)"
    and args1: "args1 = DockerSandbox_spawn_args cid code1"
    by (auto simp add: DockerSandbox_execute_def split: prod.splits sum.splits)
  have "containerId s1 = Some cid"
    using cid by (auto simp add: getOrCreateContainer_def createContainer_def Let_def
        split: option.splits if_splits exec_result.splits)
  moreover from this handle have "cid \<noteq> []" by auto
  moreover have "foldl reaper_tick s1 ticks = s1"
    using ticks by (rule reaper_ticks_within)
  ultimately show ?thesis
    using args1 window by (auto simp add: DockerSandbox_execute_reuse)
qed

text \<open>In every such state the handle is \<^verbatim>\<open>null\<close> or a non-empty id.\<close>

lemma reachable_handle: "reachable s \<Longrightarrow> containerId s \<noteq> Some []"
proof (induction rule: reachable.induct)
  case (new session)
  then show ?case by (simp add: DockerSandbox_new_def)
next
  case (acquire s e cwd)
  then show ?case
    by (auto simp add: getOrCreateContainer_def createContainer_def prints_id_def Let_def
        stopContainer_def truthy_id_def split: option.splits exec_result.splits if_splits)
next
  case (tick s t)
  then show ?case
    by (auto simp add: reaper_tick_def cleanupExpired_def stopContainer_def Let_def
        split: option.splits exec_result.splits if_splits)
next
  case (cleanup s r)
  then show ?case
    by (auto simp add: DockerSandbox_cleanup_def stopContainer_def Let_def
        split: option.splits exec_result.splits if_splits)
qed

text \<open>
  C10. \<open>stopContainer\<close> never throws, whatever \<^verbatim>\<open>docker stop\<close> does, and leaves a
  handle that is falsy: \<^verbatim>\<open>null\<close> whenever the handle before the call was \<^verbatim>\<open>null\<close> or
  a non-empty id (an empty id, which \<^verbatim>\<open>docker run\<close> does not print, is left as it is).
  The same holds after \<open>cleanup\<close> and after the replacement of a stale handle whose
  \<^verbatim>\<open>docker run\<close> fails. A later \<open>stopContainer\<close> or \<open>cleanup\<close> then issues no command,
  and a later acquire issues \<^verbatim>\<open>docker run\<close> only.
\<close>

theorem stopContainer_clears_handle:
  "fst (stopContainer r s) = Inr () \<and>
   \<not> truthy_id (containerId (snd (stopContainer r s))) \<and>
   (containerId s \<noteq> Some [] \<longrightarrow>
      containerId (snd (stopContainer r s)) = None \<and>
      containerId (snd (DockerSandbox_cleanup r s)) = None \<and>
      (\<not> (truthy_id (containerId s) \<and> t_check e - lastUsed s < EXECUTION_TIMEOUT) \<and>
       run_result e = ExecFailed m \<longrightarrow>
         fst (getOrCreateContainer e cwd s) =
           Inl (Error (''Failed to create Docker container: '' @ m)) \<and>
         containerId (snd (getOrCreateContainer e cwd s)) = None)) \<and>
   stopContainer r' (snd (stopContainer r s)) = (Inr (), snd (stopContainer r s)) \<and>
   commands (snd (DockerSandbox_cleanup r' (snd (stopContainer r s)))) =
     commands (snd (stopContainer r s)) \<and>
   commands (snd (getOrCreateContainer e' cwd' (snd (stopContainer r s)))) =
     commands (snd (stopContainer r s))
       @ [docker_run_command (''pi-ptc-'' @ sessionId s @ ''-'' @ decimal_int (t_name e')) cwd']"
proof -
  let ?s' = "snd (stopContainer r s)"
  have falsy: "\<not> truthy_id (containerId ?s')" by (rule stopContainer_falsy)
  have again: "stopContainer r' ?s' = (Inr (), ?s')"
    using falsy by (rule stopContainer_idle)
  have cleanup: "commands (snd (DockerSandbox_cleanup r' ?s')) = commands ?s'"
    using falsy by (simp add: DockerSandbox_cleanup_def stopContainer_idle)
  have acquire: "commands (snd (getOrCreateContainer e' cwd' ?s')) =
      commands ?s' @ [docker_run_command (''pi-ptc-'' @ sessionId s @ ''-'' @ decimal_int (t_name e')) cwd']"
    using falsy by (simp add: getOrCreateContainer_falsy createContainer_after_stop stopContainer_keeps)
  show ?thesis
    using stopContainer_returns [of r s] stopContainer_null [of s r] falsy again cleanup acquire
      DockerSandbox_cleanup_null [of s r] stale_replacement_null [of s e m cwd]
    by blast
qed

theorem stopContainer_clears_handle_witness:
  "containerId (DockerSandbox_new ''s1'' \<lparr>containerId := Some ''c0ffee''\<rparr>) \<noteq> Some [] \<and>
   fst (stopContainer (ExecFailed ''No such container'')
      (DockerSandbox_new ''s1'' \<lparr>containerId := Some ''c0ffee''\<rparr>)) = Inr () \<and>
   containerId (snd (stopContainer (ExecFailed ''No such container'')
      (DockerSandbox_new ''s1'' \<lparr>containerId := Some ''c0ffee''\<rparr>))) = None \<and>
   containerId (snd (DockerSandbox_cleanup (ExecFailed ''No such container'')
      (DockerSandbox_new ''s1'' \<lparr>containerId := Some ''c0ffee''\<rparr>))) = None \<and>
   getOrCreateContainer
      \<lparr>t_check = 300000, t_touch = 300000, t_name = 300000, t_created = 300001,
        stop_result = ExecFailed ''No such container'',
        run_result = ExecFailed ''Cannot connect to the Docker daemon''\<rparr>
      ''/w'' (DockerSandbox_new ''s1'' \<lparr>containerId := Some ''c0ffee''\<rparr>) =
     (Inl (Error ''Failed to create Docker container: Cannot connect to the Docker daemon''),
      snd (getOrCreateContainer
        \<lparr>t_check = 300000, t_touch = 300000, t_name = 300000, t_created = 300001,
          stop_result = ExecFailed ''No such container'',
          run_result = ExecFailed ''Cannot connect to the Docker daemon''\<rparr>
        ''/w'' (DockerSandbox_new ''s1'' \<lparr>containerId := Some ''c0ffee''\<rparr>))) \<and>
   containerId (snd (getOrCreateContainer
      \<lparr>t_check = 300000, t_touch = 300000, t_name = 300000, t_created = 300001,
        stop_result = ExecFailed ''No such container'',
        run_result = ExecFailed ''Cannot connect to the Docker daemon''\<rparr>
      ''/w'' (DockerSandbox_new ''s1'' \<lparr>containerId := Some ''c0ffee''\<rparr>))) = None"
proof -
  let ?s = "DockerSandbox_new ''s1'' \<lparr>containerId := Some ''c0ffee''\<rparr>"
  let ?e = "\<lparr>t_check = 300000, t_touch = 300000, t_name = 300000, t_created = 300001,
        stop_result = ExecFailed ''No such container'',
        run_result = ExecFailed ''Cannot connect to the Docker daemon''\<rparr>"
  have handle: "containerId ?s \<noteq> Some []" by simp
  have stale: "\<not> (truthy_id (containerId ?s) \<and> t_check ?e - lastUsed ?s < EXECUTION_TIMEOUT)"
    "run_result ?e = ExecFailed ''Cannot connect to the Docker daemon''"
    by (simp_all add: DockerSandbox_new_def EXECUTION_TIMEOUT_def)
  show ?thesis
    using handle stale
      stopContainer_clears_handle [where r = "ExecFailed ''No such container''" and s = ?s
        and e = ?e and cwd = "''/w''" and m = "''Cannot connect to the Docker daemon''"]
    by (simp add: prod_eq_iff)
qed

text \<open>
  C9. For either backend the first \<open>cleanup\<close> returns normally and the second one returns
  normally and changes nothing: in particular it issues no further \<^verbatim>\<open>docker stop\<close>. The
  first \<open>cleanup\<close> of a \<open>DockerSandbox\<close> issues one \<^verbatim>\<open>docker stop\<close> when there is a
  container and none otherwise, and leaves the handle \<^verbatim>\<open>null\<close> and the reaper stopped; the
  \<open>cleanup\<close> of a \<open>SubprocessSandbox\<close> does nothing.
\<close>

theorem cleanup_twice:
  "fst (sandbox_cleanup r1 sb) = Inr () \<and>
   sandbox_cleanup r2 (snd (sandbox_cleanup r1 sb)) = (Inr (), snd (sandbox_cleanup r1 sb)) \<and>
   docker_commands (snd (sandbox_cleanup r2 (snd (sandbox_cleanup r1 sb)))) =
     docker_commands (snd (sandbox_cleanup r1 sb)) \<and>
   sandbox_cleanup r1 SubprocessSandbox = (Inr (), SubprocessSandbox) \<and>
   docker_commands (snd (sandbox_cleanup r1 (DockerSandbox d))) =
     commands d @ (case containerId d of
                     None \<Rightarrow> []
                   | Some cid \<Rightarrow> if cid = [] then [] else [''docker stop '' @ cid]) \<and>
   (containerId d \<noteq> Some [] \<longrightarrow>
      (\<exists>d'. snd (sandbox_cleanup r1 (DockerSandbox d)) = DockerSandbox d' \<and>
            containerId d' = None \<and> cleanupInterval d' = None))"
proof -
  have first: "fst (sandbox_cleanup r1 sb) = Inr ()"
    by (cases sb) (simp_all add: case_prod_unfold DockerSandbox_cleanup_returns)
  have second: "sandbox_cleanup r2 (snd (sandbox_cleanup r1 sb)) = (Inr (), snd (sandbox_cleanup r1 sb))"
    by (cases sb) (simp_all add: case_prod_unfold DockerSandbox_cleanup_again)
  have docker: "docker_commands (snd (sandbox_cleanup r1 (DockerSandbox d))) =
     commands d @ (case containerId d of
                     None \<Rightarrow> []
                   | Some cid \<Rightarrow> if cid = [] then [] else [''docker stop '' @ cid])"
    by (simp add: case_prod_unfold DockerSandbox_cleanup_commands)
  have null: "containerId d \<noteq> Some [] \<longrightarrow>
      (\<exists>d'. snd (sandbox_cleanup r1 (DockerSandbox d)) = DockerSandbox d' \<and>
            containerId d' = None \<and> cleanupInterval d' = None)"
    by (simp add: case_prod_unfold DockerSandbox_cleanup_null DockerSandbox_cleanup_interval)
  show ?thesis
    using first second docker null by simp
qed

theorem cleanup_twice_witness:
  "containerId (DockerSandbox_new ''s1'' \<lparr>containerId := Some ''c0ffee''\<rparr>) \<noteq> Some [] \<and>
   docker_commands (snd (sandbox_cleanup (ExecFailed ''No such container'')
      (DockerSandbox (DockerSandbox_new ''s1'' \<lparr>containerId := Some ''c0ffee''\<rparr>)))) =
     [''docker stop c0ffee''] \<and>
   docker_commands (snd (sandbox_cleanup (ExecOk [])
      (snd (sandbox_cleanup (ExecFailed ''No such container'')
        (DockerSandbox (DockerSandbox_new ''s1'' \<lparr>containerId := Some ''c0ffee''\<rparr>)))))) =
     [''docker stop c0ffee'']"
  using cleanup_twice [of "ExecFailed ''No such container''"
      "DockerSandbox (DockerSandbox_new ''s1'' \<lparr>containerId := Some ''c0ffee''\<rparr>)" "ExecOk []"
      "DockerSandbox_new ''s1'' \<lparr>containerId := Some ''c0ffee''\<rparr>"]
  by (simp add: DockerSandbox_new_def)

text \<open>
  C6. \<open>getOrCreateContainer\<close> returns the existing handle and refreshes \<open>lastUsed\<close>
  exactly when there is a container and less than 270,000 ms have passed since
  \<open>lastUsed\<close>. Otherwise it stops the stale container if there is one and issues
  \<^verbatim>\<open>docker run\<close> with networking disabled, the working directory mounted read-only and
  the memory and CPU ceilings; the id that command prints becomes the handle. The reaper
  ticks every 60,000 ms and stops a container idle for more than 270,000 ms. So a second
  execution that starts within the window of the first, with reaper ticks between them,
  runs in the same container and issues no further command.
\<close>

theorem container_reuse_and_reaping:
  \<open>(truthy_id (containerId s) \<and> t_check e - lastUsed s < 270000 \<longrightarrow>
      (\<exists>cid. containerId s = Some cid \<and>
         getOrCreateContainer e cwd s = (Inr cid, s\<lparr>lastUsed := t_touch e\<rparr>))) \<and>
   (\<not> (truthy_id (containerId s) \<and> t_check e - lastUsed s < 270000) \<longrightarrow>
      commands (snd (getOrCreateContainer e cwd s)) =
        commands s
        @ (case containerId s of
             None \<Rightarrow> []
           | Some cid \<Rightarrow> if cid = [] then [] else [''docker stop '' @ cid])
        @ [''docker run -d --rm --network none --name pi-ptc-'' @ sessionId s @ ''-''
             @ decimal_int (t_name e)
             @ '' -v "'' @ cwd
             @ '':/workspace:ro" --memory 512m --cpus 1.0 python:3.12-slim tail -f /dev/null''] \<and>
      (\<forall>out. run_result e = ExecOk out \<longrightarrow>
         fst (getOrCreateContainer e cwd s) = Inr (trim out) \<and>
         containerId (snd (getOrCreateContainer e cwd s)) = Some (trim out) \<and>
         lastUsed (snd (getOrCreateContainer e cwd s)) = t_created e)) \<and>
   cleanupInterval (DockerSandbox_new session) = Some 60000 \<and>
   (cleanupInterval s \<noteq> None \<longrightarrow>
      reaper_tick s (now, r) =
        (if truthy_id (containerId s) \<and> now - lastUsed s > 270000
         then snd (stopContainer r s) else s)) \<and>
   \<not> truthy_id (containerId (snd (stopContainer r s))) \<and>
   (DockerSandbox_execute eA codeA cwdA sigA s = (Inr (argsA, stA), sA) \<and>
    containerId sA \<noteq> Some [] \<and>
    (\<forall>tick \<in> set ticks. fst tick - lastUsed sA \<le> 270000) \<and>
    t_check eB - lastUsed sA < 270000 \<longrightarrow>
      (\<exists>cid. argsA = DockerSandbox_spawn_args cid codeA \<and>
         DockerSandbox_execute eB codeB cwdB sigB (foldl reaper_tick sA ticks) =
           (Inr (DockerSandbox_spawn_args cid codeB, DockerSandbox_started sigB),
            sA\<lparr>lastUsed := t_touch eB\<rparr>)) \<and>
      commands (snd (DockerSandbox_execute eB codeB cwdB sigB (foldl reaper_tick sA ticks))) =
        commands sA)\<close>
proof -
  have reuse: "truthy_id (containerId s) \<and> t_check e - lastUsed s < 270000 \<longrightarrow>
      (\<exists>cid. containerId s = Some cid \<and>
         getOrCreateContainer e cwd s = (Inr cid, s\<lparr>lastUsed := t_touch e\<rparr>))"
    by (auto simp add: truthy_id_def getOrCreateContainer_def EXECUTION_TIMEOUT_def
        split: option.splits)
  have create: \<open>\<not> (truthy_id (containerId s) \<and> t_check e - lastUsed s < 270000) \<longrightarrow>
      commands (snd (getOrCreateContainer e cwd s)) =
        commands s
        @ (case containerId s of
             None \<Rightarrow> []
           | Some cid \<Rightarrow> if cid = [] then [] else [''docker stop '' @ cid])
        @ [''docker run -d --rm --network none --name pi-ptc-'' @ sessionId s @ ''-''
             @ decimal_int (t_name e)
             @ '' -v "'' @ cwd
             @ '':/workspace:ro" --memory 512m --cpus 1.0 python:3.12-slim tail -f /dev/null''] \<and>
      (\<forall>out. run_result e = ExecOk out \<longrightarrow>
         fst (getOrCreateContainer e cwd s) = Inr (trim out) \<and>
         containerId (snd (getOrCreateContainer e cwd s)) = Some (trim out) \<and>
         lastUsed (snd (getOrCreateContainer e cwd s)) = t_created e)\<close>
  proof
    assume "\<not> (truthy_id (containerId s) \<and> t_check e - lastUsed s < 270000)"
    then have "getOrCreateContainer e cwd s = createContainer e cwd s"
      by (intro getOrCreateContainer_create) (simp add: EXECUTION_TIMEOUT_def)
    then show \<open>commands (snd (getOrCreateContainer e cwd s)) =
        commands s
        @ (case containerId s of
             None \<Rightarrow> []
           | Some cid \<Rightarrow> if cid = [] then [] else [''docker stop '' @ cid])
        @ [''docker run -d --rm --network none --name pi-ptc-'' @ sessionId s @ ''-''
             @ decimal_int (t_name e)
             @ '' -v "'' @ cwd
             @ '':/workspace:ro" --memory 512m --cpus 1.0 python:3.12-slim tail -f /dev/null''] \<and>
      (\<forall>out. run_result e = ExecOk out \<longrightarrow>
         fst (getOrCreateContainer e cwd s) = Inr (trim out) \<and>
         containerId (snd (getOrCreateContainer e cwd s)) = Some (trim out) \<and>
         lastUsed (snd (getOrCreateContainer e cwd s)) = t_created e)\<close>
      using createContainer_ok [of e _ cwd s]
      by (simp add: createContainer_commands docker_run_command_text)
  qed
  have interval: "cleanupInterval (DockerSandbox_new session) = Some 60000"
    by (simp add: DockerSandbox_new_def)
  have reaper: "cleanupInterval s \<noteq> None \<longrightarrow>
      reaper_tick s (now, r) =
        (if truthy_id (containerId s) \<and> now - lastUsed s > 270000
         then snd (stopContainer r s) else s)"
    using reaper_tick_cases [of s now r] by (simp add: EXECUTION_TIMEOUT_def)
  have stopped: "\<not> truthy_id (containerId (snd (stopContainer r s)))"
    by (rule stopContainer_falsy)
  have seq: "DockerSandbox_execute eA codeA cwdA sigA s = (Inr (argsA, stA), sA) \<and>
    containerId sA \<noteq> Some [] \<and>
    (\<forall>tick \<in> set ticks. fst tick - lastUsed sA \<le> 270000) \<and>
    t_check eB - lastUsed sA < 270000 \<longrightarrow>
      (\<exists>cid. argsA = DockerSandbox_spawn_args cid codeA \<and>
         DockerSandbox_execute eB codeB cwdB sigB (foldl reaper_tick sA ticks) =
           (Inr (DockerSandbox_spawn_args cid codeB, DockerSandbox_started sigB),
            sA\<lparr>lastUsed := t_touch eB\<rparr>)) \<and>
      commands (snd (DockerSandbox_execute eB codeB cwdB sigB (foldl reaper_tick sA ticks))) =
        commands sA"
  proof
    assume h: "DockerSandbox_execute eA codeA cwdA sigA s = (Inr (argsA, stA), sA) \<and>
      containerId sA \<noteq> Some [] \<and>
      (\<forall>tick \<in> set ticks. fst tick - lastUsed sA \<le> 270000) \<and>
      t_check eB - lastUsed sA < 270000"
    then obtain cid where cid: "argsA = DockerSandbox_spawn_args cid codeA \<and>
         DockerSandbox_execute eB codeB cwdB sigB (foldl reaper_tick sA ticks) =
           (Inr (DockerSandbox_spawn_args cid codeB, DockerSandbox_started sigB),
            sA\<lparr>lastUsed := t_touch eB\<rparr>)"
      using sequential_executions_share [of eA codeA cwdA sigA s argsA stA sA ticks eB codeB cwdB sigB]
      by (auto simp add: EXECUTION_TIMEOUT_def)
    then have "commands (snd (DockerSandbox_execute eB codeB cwdB sigB (foldl reaper_tick sA ticks))) =
        commands sA" by simp
    with cid show "(\<exists>cid. argsA = DockerSandbox_spawn_args cid codeA \<and>
         DockerSandbox_execute eB codeB cwdB sigB (foldl reaper_tick sA ticks) =
           (Inr (DockerSandbox_spawn_args cid codeB, DockerSandbox_started sigB),
            sA\<lparr>lastUsed := t_touch eB\<rparr>)) \<and>
      commands (snd (DockerSandbox_execute eB codeB cwdB sigB (foldl reaper_tick sA ticks))) =
        commands sA" by blast
  qed
  show ?thesis
    using reuse create interval reaper stopped seq by blast
qed

lemma trim_c0ffee: "trim ''c0ffee\<newline>'' = ''c0ffee''"
  by (simp add: trim_def is_space_def)

theorem container_reuse_and_reaping_witness:
  \<open>getOrCreateContainer
      \<lparr>t_check = 1000, t_touch = 1000, t_name = 1001, t_created = 3000,
        stop_result = ExecOk [], run_result = ExecOk ''c0ffee\<newline>''\<rparr>
      ''/w'' (DockerSandbox_new ''s1'') =
     (Inr ''c0ffee'',
      DockerSandbox_new ''s1''
        \<lparr>containerId := Some ''c0ffee'', lastUsed := 3000,
         commands := [''docker run -d --rm --network none --name pi-ptc-s1-1001 -v "/w:/workspace:ro" --memory 512m --cpus 1.0 python:3.12-slim tail -f /dev/null'']\<rparr>) \<and>
   DockerSandbox_execute
      \<lparr>t_check = 150000, t_touch = 150001, t_name = 150002, t_created = 150003,
        stop_result = ExecOk [], run_result = ExecFailed ''not run''\<rparr>
      ''print(2)'' ''/w'' NoSignal
      (foldl reaper_tick
         (snd (DockerSandbox_execute
            \<lparr>t_check = 1000, t_touch = 1000, t_name = 1001, t_created = 3000,
              stop_result = ExecOk [], run_result = ExecOk ''c0ffee\<newline>''\<rparr>
            ''print(1)'' ''/w'' NoSignal (DockerSandbox_new ''s1'')))
         [(60000, ExecOk []), (120000, ExecOk [])]) =
     (Inr (DockerSandbox_spawn_args ''c0ffee'' ''print(2)'', DockerSandbox_started NoSignal),
      snd (DockerSandbox_execute
            \<lparr>t_check = 1000, t_touch = 1000, t_name = 1001, t_created = 3000,
              stop_result = ExecOk [], run_result = ExecOk ''c0ffee\<newline>''\<rparr>
            ''print(1)'' ''/w'' NoSignal (DockerSandbox_new ''s1''))
        \<lparr>lastUsed := 150001\<rparr>) \<and>
   getOrCreateContainer
      \<lparr>t_check = 150000, t_touch = 150001, t_name = 150002, t_created = 150003,
        stop_result = ExecOk [], run_result = ExecFailed ''not run''\<rparr> ''/w''
      (DockerSandbox_new ''s1'' \<lparr>containerId := Some ''c0ffee'', lastUsed := 3000\<rparr>) =
     (Inr ''c0ffee'',
      DockerSandbox_new ''s1'' \<lparr>containerId := Some ''c0ffee'', lastUsed := 150001\<rparr>) \<and>
   reaper_tick (DockerSandbox_new ''s1'' \<lparr>containerId := Some ''c0ffee'', lastUsed := 3000\<rparr>)
      (300000, ExecFailed ''No such container'') =
     DockerSandbox_new ''s1''
       \<lparr>containerId := None, lastUsed := 3000, commands := [''docker stop c0ffee''],
        console := [''Failed to stop container c0ffee:'']\<rparr>\<close>
proof -
  let ?e1 = "\<lparr>t_check = 1000, t_touch = 1000, t_name = 1001, t_created = 3000,
        stop_result = ExecOk [], run_result = ExecOk ''c0ffee\<newline>''\<rparr>"
  let ?e2 = "\<lparr>t_check = 150000, t_touch = 150001, t_name = 150002, t_created = 150003,
        stop_result = ExecOk [], run_result = ExecFailed ''not run''\<rparr>"
  let ?s0 = "DockerSandbox_new ''s1''"
  let ?first = "DockerSandbox_execute ?e1 ''print(1)'' ''/w'' NoSignal ?s0"
  let ?ticks = "[(60000, ExecOk []), (120000, ExecOk [])] :: (int \<times> exec_result) list"
  let ?s1 = "DockerSandbox_new ''s1'' \<lparr>containerId := Some ''c0ffee'', lastUsed := 3000\<rparr>"
  note R = container_reuse_and_reaping
  have name: "decimal_int 1001 = ''1001''"
    by (simp add: decimal_int_def decimal.simps digit_def)
  \<comment> \<open>the first acquisition: no container yet, so one is created\<close>
  have fresh: "\<not> (truthy_id (containerId ?s0) \<and> t_check ?e1 - lastUsed ?s0 < 270000)"
    by (simp add: DockerSandbox_new_def truthy_id_def)
  have ran: "run_result ?e1 = ExecOk ''c0ffee\<newline>''" by simp
  from fresh ran
    R [where s = ?s0 and e = ?e1 and cwd = "''/w''", THEN conjunct2, THEN conjunct1]
  have created: \<open>commands (snd (getOrCreateContainer ?e1 ''/w'' ?s0)) =
      [''docker run -d --rm --network none --name pi-ptc-s1-1001 -v "/w:/workspace:ro" --memory 512m --cpus 1.0 python:3.12-slim tail -f /dev/null'']\<close>
    and handle: "fst (getOrCreateContainer ?e1 ''/w'' ?s0) = Inr ''c0ffee''"
      "containerId (snd (getOrCreateContainer ?e1 ''/w'' ?s0)) = Some ''c0ffee''"
      "lastUsed (snd (getOrCreateContainer ?e1 ''/w'' ?s0)) = 3000"
    by (simp_all add: DockerSandbox_new_def name trim_c0ffee)
  have rest: "sessionId (snd (getOrCreateContainer ?e1 ''/w'' ?s0)) = ''s1''"
    "cleanupInterval (snd (getOrCreateContainer ?e1 ''/w'' ?s0)) = Some 60000"
    "console (snd (getOrCreateContainer ?e1 ''/w'' ?s0)) = []"
    by (simp_all add: getOrCreateContainer_def createContainer_def DockerSandbox_new_def
        truthy_id_def Let_def)
  have one: \<open>getOrCreateContainer ?e1 ''/w'' ?s0 =
     (Inr ''c0ffee'',
      DockerSandbox_new ''s1''
        \<lparr>containerId := Some ''c0ffee'', lastUsed := 3000,
         commands := [''docker run -d --rm --network none --name pi-ptc-s1-1001 -v "/w:/workspace:ro" --memory 512m --cpus 1.0 python:3.12-slim tail -f /dev/null'']\<rparr>)\<close>
    using created handle rest by (simp add: prod_eq_iff DockerSandbox_new_def)
  \<comment> \<open>the second execution, within the window of the first\<close>
  have first: "fst ?first =
      Inr (DockerSandbox_spawn_args ''c0ffee'' ''print(1)'', DockerSandbox_started NoSignal)"
    and s1: "containerId (snd ?first) = Some ''c0ffee''" "lastUsed (snd ?first) = 3000"
    using one by (simp_all add: DockerSandbox_execute_def)
  have hyp: "?first =
      (Inr (DockerSandbox_spawn_args ''c0ffee'' ''print(1)'', DockerSandbox_started NoSignal),
       snd ?first)"
    using first by (simp add: prod_eq_iff)
  have "\<exists>cid. DockerSandbox_spawn_args ''c0ffee'' ''print(1)'' =
          DockerSandbox_spawn_args cid ''print(1)'' \<and>
        DockerSandbox_execute ?e2 ''print(2)'' ''/w'' NoSignal (foldl reaper_tick (snd ?first) ?ticks) =
          (Inr (DockerSandbox_spawn_args cid ''print(2)'', DockerSandbox_started NoSignal),
           snd ?first \<lparr>lastUsed := t_touch ?e2\<rparr>)"
    using hyp s1
      R [where eA = ?e1 and codeA = "''print(1)''" and cwdA = "''/w''"
        and sigA = NoSignal and s = ?s0
        and argsA = "DockerSandbox_spawn_args ''c0ffee'' ''print(1)''"
        and stA = "DockerSandbox_started NoSignal" and sA = "snd ?first"
        and ticks = ?ticks
        and eB = ?e2 and codeB = "''print(2)''" and cwdB = "''/w''" and sigB = NoSignal,
        THEN conjunct2, THEN conjunct2, THEN conjunct2, THEN conjunct2, THEN conjunct2]
    by simp
  then have second:
    "DockerSandbox_execute ?e2 ''print(2)'' ''/w'' NoSignal (foldl reaper_tick (snd ?first) ?ticks) =
       (Inr (DockerSandbox_spawn_args ''c0ffee'' ''print(2)'', DockerSandbox_started NoSignal),
        snd ?first \<lparr>lastUsed := 150001\<rparr>)"
    by (auto simp add: DockerSandbox_spawn_args_def)
  \<comment> \<open>reuse of a live handle\<close>
  have "truthy_id (containerId ?s1) \<and> t_check ?e2 - lastUsed ?s1 < 270000"
    by (simp add: truthy_id_def)
  then have "\<exists>cid. containerId ?s1 = Some cid \<and>
      getOrCreateContainer ?e2 ''/w'' ?s1 = (Inr cid, ?s1\<lparr>lastUsed := t_touch ?e2\<rparr>)"
    using R [where e = ?e2 and cwd = "''/w''" and s = ?s1, THEN conjunct1]
    by blast
  then have reuse: "getOrCreateContainer ?e2 ''/w'' ?s1 =
      (Inr ''c0ffee'', DockerSandbox_new ''s1'' \<lparr>containerId := Some ''c0ffee'', lastUsed := 150001\<rparr>)"
    by auto
  \<comment> \<open>the reaper, once the container has been idle for too long\<close>
  have "cleanupInterval ?s1 \<noteq> None" by (simp add: DockerSandbox_new_def)
  then have "reaper_tick ?s1 (300000, ExecFailed ''No such container'') =
      (if truthy_id (containerId ?s1) \<and> 300000 - lastUsed ?s1 > 270000
       then snd (stopContainer (ExecFailed ''No such container'') ?s1) else ?s1)"
    using R [where s = ?s1 and now = 300000 and r = "ExecFailed ''No such container''",
        THEN conjunct2, THEN conjunct2, THEN conjunct2, THEN conjunct1]
    by blast
  then have reaped: "reaper_tick ?s1 (300000, ExecFailed ''No such container'') =
     DockerSandbox_new ''s1''
       \<lparr>containerId := None, lastUsed := 3000, commands := [''docker stop c0ffee''],
        console := [''Failed to stop container c0ffee:'']\<rparr>"
    by (simp add: truthy_id_def stopContainer_def DockerSandbox_new_def)
  show ?thesis
    using one second reuse reaped by simp
qed

section \<open>Properties of RpcProtocol: tool calls and captured text\<close>

lemma send_completion: "completion (send m s) = completion s"
  by (simp add: send_def)

lemma send_writes:
  "\<not> stdin_destroyed (proc s) \<Longrightarrow> stdin_written (proc (send m s)) = stdin_written (proc s) @ [m]"
  by (simp add: send_def)

lemma handleToolCall_completion:
  "completion (handleToolCall env call_id tool params s) = completion s"
  by (simp add: handleToolCall_def send_completion split: option.splits dispatch_outcome.splits)

text \<open>
  C3. For a tool name that is not in the tool map, and for a dispatch that throws,
  \<open>handleToolCall\<close> sends a \<^verbatim>\<open>tool_result\<close> with the call's id, an empty content
  array and the message in \<^verbatim>\<open>error\<close> (\<open>Unknown tool: \<close> and the name in the first
  case); for a dispatch that succeeds it sends the dispatcher's content (an empty array
  when the result has none). The completion promise is left as it was. \<open>send\<close> writes the
  message to the guest's standard input unless that stream is destroyed.
\<close>

theorem handleToolCall_replies:
  "(tools env tool = None \<longrightarrow>
      handleToolCall env call_id tool params s =
        send (ToolResult call_id (Arr []) (Some (''Unknown tool: '' @ tool))) s) \<and>
   (tools env tool \<noteq> None \<and> executeTool env tool params = Thrown err \<longrightarrow>
      handleToolCall env call_id tool params s =
        send (ToolResult call_id (Arr []) (Some (thrown_message err))) s) \<and>
   (tools env tool \<noteq> None \<and> executeTool env tool params = Fulfilled content \<longrightarrow>
      handleToolCall env call_id tool params s =
        send (ToolResult call_id (if truthy content then content else Arr []) None) s) \<and>
   handleMessage env line (Handled (ToolCall call_id tool params)) s =
     handleToolCall env call_id tool params s \<and>
   completion (handleToolCall env call_id tool params s) = completion s \<and>
   completion (send m s) = completion s \<and>
   (\<not> stdin_destroyed (proc s) \<longrightarrow>
      stdin_written (proc (send m s)) = stdin_written (proc s) @ [m])"
  by (auto simp add: handleToolCall_def send_completion send_writes
      split: option.splits dispatch_outcome.splits)

theorem handleToolCall_replies_witness:
  "stdin_written (proc (handleToolCall
      (CodeExecutor_env [\<lparr>tool_name = ''t'', tool_description = [], tool_parameters = Obj []\<rparr>]
         (\<lambda>n p. Thrown (ErrorObject ''boom'')) False False)
      ''a'' ''nope'' (Obj [])
      (CodeExecutor_execute
         (CodeExecutor_env [\<lparr>tool_name = ''t'', tool_description = [], tool_parameters = Obj []\<rparr>]
            (\<lambda>n p. Thrown (ErrorObject ''boom'')) False False)
         ''await nope()''))) =
     [ToolResult ''a'' (Arr []) (Some ''Unknown tool: nope'')] \<and>
   completion (handleToolCall
      (CodeExecutor_env [\<lparr>tool_name = ''t'', tool_description = [], tool_parameters = Obj []\<rparr>]
         (\<lambda>n p. Thrown (ErrorObject ''boom'')) False False)
      ''a'' ''nope'' (Obj [])
      (CodeExecutor_execute
         (CodeExecutor_env [\<lparr>tool_name = ''t'', tool_description = [], tool_parameters = Obj []\<rparr>]
            (\<lambda>n p. Thrown (ErrorObject ''boom'')) False False)
         ''await nope()'')) = Pending \<and>
   stdin_written (proc (handleToolCall
      (CodeExecutor_env [\<lparr>tool_name = ''t'', tool_description = [], tool_parameters = Obj []\<rparr>]
         (\<lambda>n p. Thrown (ErrorObject ''boom'')) False False)
      ''b'' ''t'' (Obj [])
      (CodeExecutor_execute
         (CodeExecutor_env [\<lparr>tool_name = ''t'', tool_description = [], tool_parameters = Obj []\<rparr>]
            (\<lambda>n p. Thrown (ErrorObject ''boom'')) False False)
         ''await t()''))) =
     [ToolResult ''b'' (Arr []) (Some ''boom'')] \<and>
   stdin_written (proc (handleToolCall
      (CodeExecutor_env [\<lparr>tool_name = ''t'', tool_description = [], tool_parameters = Obj []\<rparr>]
         (\<lambda>n p. Fulfilled (Arr [Obj [(''type'', Str ''text''), (''text'', Str ''ok'')]])) False False)
      ''c'' ''t'' (Obj [(''x'', Num 1)])
      (CodeExecutor_execute
         (CodeExecutor_env [\<lparr>tool_name = ''t'', tool_description = [], tool_parameters = Obj []\<rparr>]
            (\<lambda>n p. Fulfilled (Arr [Obj [(''type'', Str ''text''), (''text'', Str ''ok'')]])) False False)
         ''await t(x=1)''))) =
     [ToolResult ''c'' (Arr [Obj [(''type'', Str ''text''), (''text'', Str ''ok'')]]) None]"
proof -
  let ?T = "\<lparr>tool_name = ''t'', tool_description = [], tool_parameters = Obj []\<rparr>"
  let ?throws = "CodeExecutor_env [?T] (\<lambda>n p. Thrown (ErrorObject ''boom'')) False False"
  let ?returns = "CodeExecutor_env [?T]
      (\<lambda>n p. Fulfilled (Arr [Obj [(''type'', Str ''text''), (''text'', Str ''ok'')]])) False False"
  have fresh: "\<not> stdin_destroyed (proc (CodeExecutor_execute env code))"
    "stdin_written (proc (CodeExecutor_execute env code)) = []"
    "completion (CodeExecutor_execute env code) = Pending" for env code
    by (simp_all add: CodeExecutor_execute_def RpcProtocol_new_def spawned_def)
  have unknown: "tools ?throws ''nope'' = None"
    by (simp add: CodeExecutor_env_def toolsMap_def)
  have known: "tools ?throws ''t'' \<noteq> None \<and>
      executeTool ?throws ''t'' (Obj []) = Thrown (ErrorObject ''boom'')"
    by (simp add: CodeExecutor_env_def toolsMap_def)
  have fulfilled: "tools ?returns ''t'' \<noteq> None \<and>
      executeTool ?returns ''t'' (Obj [(''x'', Num 1)]) =
        Fulfilled (Arr [Obj [(''type'', Str ''text''), (''text'', Str ''ok'')]])"
    by (simp add: CodeExecutor_env_def toolsMap_def)
  note A = handleToolCall_replies [where env = ?throws and tool = "''nope''" and call_id = "''a''"
      and params = "Obj []" and s = "CodeExecutor_execute ?throws ''await nope()''"
      and m = "ToolResult ''a'' (Arr []) (Some ''Unknown tool: nope'')"]
  note B = handleToolCall_replies [where env = ?throws and tool = "''t''" and call_id = "''b''"
      and params = "Obj []" and s = "CodeExecutor_execute ?throws ''await t()''"
      and err = "ErrorObject ''boom''"
      and m = "ToolResult ''b'' (Arr []) (Some ''boom'')"]
  note C = handleToolCall_replies [where env = ?returns and tool = "''t''" and call_id = "''c''"
      and params = "Obj [(''x'', Num 1)]" and s = "CodeExecutor_execute ?returns ''await t(x=1)''"
      and content = "Arr [Obj [(''type'', Str ''text''), (''text'', Str ''ok'')]]"
      and m = "ToolResult ''c'' (Arr [Obj [(''type'', Str ''text''), (''text'', Str ''ok'')]]) None"]
  have a: "stdin_written (proc (handleToolCall ?throws ''a'' ''nope'' (Obj [])
        (CodeExecutor_execute ?throws ''await nope()''))) =
      [ToolResult ''a'' (Arr []) (Some ''Unknown tool: nope'')]"
    using A unknown fresh by simp
  have a': "completion (handleToolCall ?throws ''a'' ''nope'' (Obj [])
        (CodeExecutor_execute ?throws ''await nope()'')) = Pending"
    using A fresh by simp
  have b: "stdin_written (proc (handleToolCall ?throws ''b'' ''t'' (Obj [])
        (CodeExecutor_execute ?throws ''await t()''))) = [ToolResult ''b'' (Arr []) (Some ''boom'')]"
    using B known fresh by simp
  have c: "stdin_written (proc (handleToolCall ?returns ''c'' ''t'' (Obj [(''x'', Num 1)])
        (CodeExecutor_execute ?returns ''await t(x=1)''))) =
      [ToolResult ''c'' (Arr [Obj [(''type'', Str ''text''), (''text'', Str ''ok'')]]) None]"
    using C fulfilled fresh by simp
  show ?thesis using a a' b c by simp
qed

text \<open>
  Lines on which \<^verbatim>\<open>JSON.parse\<close> throws are captured in arrival order, joined by
  newlines, and prepended to the output of the \<^verbatim>\<open>complete\<close> message; so is a line that
  parses to \<^verbatim>\<open>null\<close>. Every other JSON value without a handled tag leaves the state as
  it was.
\<close>

lemma capture_completion: "completion (capture line s) = completion s"
  by (simp add: capture_def)

lemma handleMessage_unhandled_json:
  "msg \<noteq> Null \<Longrightarrow> msg \<noteq> Undefined \<Longrightarrow> handleMessage env line (Unhandled msg) s = s"
  by (cases msg) simp_all

lemma handleMessage_null: "handleMessage env line (Unhandled Null) s = capture line s"
  by simp

lemma join_Cons: "ls \<noteq> [] \<Longrightarrow> join sep (l # ls) = l @ sep @ join sep ls"
  by (cases ls) simp_all

lemma captured_lines:
  "[] \<notin> set ls \<Longrightarrow> stdout_buf s \<noteq> [] \<Longrightarrow>
   stdout_buf (foldl (\<lambda>s l. handleMessage env l SyntaxError s) s ls) = join ''\<newline>'' (stdout_buf s # ls)"
proof (induction ls arbitrary: s)
  case Nil
  then show ?case by simp
next
  case (Cons l ls)
  have buf: "stdout_buf (capture l s) = stdout_buf s @ ''\<newline>'' @ l"
    using Cons.prems by (simp add: capture_def)
  have "stdout_buf (foldl (\<lambda>s l. handleMessage env l SyntaxError s) (capture l s) ls) =
      join ''\<newline>'' (stdout_buf (capture l s) # ls)"
    using Cons.prems buf by (intro Cons.IH) auto
  also have "\<dots> = join ''\<newline>'' (stdout_buf s # l # ls)"
    unfolding buf by (cases ls) simp_all
  finally show ?case by simp
qed

lemma captured_lines_in_order:
  assumes "[] \<notin> set ls" "ls \<noteq> []" "stdout_buf s = []"
  shows "stdout_buf (foldl (\<lambda>s l. handleMessage env l SyntaxError s) s ls) = join ''\<newline>'' ls"
proof -
  from assms obtain l ls' where ls: "ls = l # ls'" "l \<noteq> []" "[] \<notin> set ls'"
    by (cases ls) auto
  have "stdout_buf (capture l s) = l" using assms(3) by (simp add: capture_def)
  with ls show ?thesis
    using captured_lines [of ls' "capture l s" env] by simp
qed

lemma complete_prepends_captured:
  "completion s = Pending \<Longrightarrow> stdout_buf s \<noteq> [] \<Longrightarrow>
   completion (handleMessage env line (Handled (Complete out)) s) =
     Resolved (stdout_buf s @ ''\<newline>'' @ out)"
  by (simp add: resolve_def)

text \<open>
  C2. A printed line that happens to be JSON, such as the output of \<^verbatim>\<open>print(42)\<close>, is
  neither a handled message nor captured: the final output does not contain it. A line
  that is not JSON is captured and prepended.
\<close>

theorem printed_json_line_is_dropped:
  \<open>completion (rpc_run env (RpcProtocol_new env userCode)
      [StdoutLine ''42'' (Unhandled (Num 42)),
       StdoutLine ''{"type": "complete", "output": "done"}'' (Handled (Complete ''done''))])
     = Resolved ''done'' \<and>
   completion (rpc_run env (RpcProtocol_new env userCode)
      [StdoutLine ''hello'' SyntaxError,
       StdoutLine ''{"type": "complete", "output": "done"}'' (Handled (Complete ''done''))])
     = Resolved ''hello\<newline>done''\<close>
  by (simp add: rpc_run_def RpcProtocol_new_def capture_def resolve_def)

section \<open>Properties of cancellation and the execution timeout\<close>

text \<open>
  The abort listener of \<open>RpcProtocol\<close>: \<open>SIGTERM\<close>, the grace timer of 5000 ms, the
  rejection, and nothing on a second abort. When the grace timer fires, \<open>SIGKILL\<close> is
  delivered if the process has not exited.
\<close>

lemma rpc_abort_sequence:
  assumes "abort_listener s" "running (proc s)" "completion s = Pending"
  shows "signals (proc (rpc_step env s AbortSignal)) = signals (proc s) @ [SIGTERM] \<and>
         completion (rpc_step env s AbortSignal) = Rejected ''Execution aborted'' \<and>
         timers (rpc_step env s AbortSignal) = timers s @ [(GraceTimer, 5000)] \<and>
         rpc_step env (rpc_step env s AbortSignal) AbortSignal = rpc_step env s AbortSignal"
  using assms by (simp add: kill_def reject_def setTimeout_def)

lemma rpc_grace_timer:
  assumes "armed GraceTimer (timers s)"
  shows "signals (proc (rpc_step env s (TimerFires GraceTimer))) =
           (if exitCode (proc s) = None \<and> running (proc s)
            then signals (proc s) @ [SIGKILL] else signals (proc s))"
  using assms by (simp add: kill_def Let_def)

lemma fired_subset: "set (fired t ts) \<subseteq> set ts"
  by (induction ts) (auto split: if_splits)

lemma rpc_step_no_execution_timer:
  "\<not> armed ExecutionTimer (timers s) \<Longrightarrow> \<not> armed ExecutionTimer (timers (rpc_step env s ev))"
proof (cases ev)
  case (StdoutLine line p)
  assume "\<not> armed ExecutionTimer (timers s)"
  moreover have "timers (handleMessage env line p s) = timers s"
    by (cases "(env, line, p, s)" rule: handleMessage.cases)
      (auto simp add: capture_def notify_def handleToolCall_def send_def Let_def
        split: sum.splits option.splits dispatch_outcome.splits)
  ultimately show ?thesis using StdoutLine by simp
next
  case (TimerFires t)
  assume "\<not> armed ExecutionTimer (timers s)"
  then show ?thesis
    using TimerFires fired_subset [of t "timers s"]
    by (auto simp add: armed_def Let_def split: timer.splits)
qed (auto simp add: armed_def setTimeout_def Let_def split: option.splits)

lemma rpc_run_no_execution_timer:
  "\<not> armed ExecutionTimer (timers s) \<Longrightarrow> \<not> armed ExecutionTimer (timers (rpc_run env s evs))"
  unfolding rpc_run_def
  by (induction evs arbitrary: s) (simp_all add: rpc_step_no_execution_timer)

lemma rpc_run_timers_unarmed: "timers s = [] \<Longrightarrow> rpc_run env s (map TimerFires ts) = s"
  by (induction ts) (simp_all add: rpc_run_def armed_def)

lemma timeout_message_text: "timeout_message = ''Execution timed out after 270 seconds''"
  by (simp add: timeout_message_def EXECUTION_TIMEOUT_def decimal_int_def decimal.simps digit_def)

text \<open>
  C1. \<open>execute\<close> starts with no pending timer and no event ever arms an execution timer.
  So however long a guest runs without finishing, nothing happens when time passes: the
  state does not change, no signal reaches the guest, and the promise stays pending. The
  execution timeout exists only in the sandbox's own \<open>execute\<close>, which arms it for 270,000
  ms and rejects with the timeout message.
\<close>

theorem execute_arms_no_timer:
  "timers (CodeExecutor_execute env userCode) = [] \<and>
   \<not> armed ExecutionTimer (timers (rpc_run env (CodeExecutor_execute env userCode) evs)) \<and>
   rpc_run env (CodeExecutor_execute env userCode) (map TimerFires ts) = CodeExecutor_execute env userCode \<and>
   CodeExecutor_outcome (rpc_run env (CodeExecutor_execute env userCode) (map TimerFires ts)) = Pending \<and>
   signals (proc (rpc_run env (CodeExecutor_execute env userCode) (map TimerFires ts))) = [] \<and>
   ex_timers (SubprocessSandbox_execute NoSignal) = [(ExecutionTimer, 270000)] \<and>
   ex_promise (SubprocessSandbox_step (SubprocessSandbox_execute NoSignal) (OnTimer ExecutionTimer)) =
     Rejected ''Execution timed out after 270 seconds''"
proof -
  have t: "timers (CodeExecutor_execute env userCode) = []"
    by (simp add: CodeExecutor_execute_def RpcProtocol_new_def)
  then have never: "\<not> armed ExecutionTimer (timers (rpc_run env (CodeExecutor_execute env userCode) evs))"
    by (intro rpc_run_no_execution_timer) (simp add: armed_def)
  have run: "rpc_run env (CodeExecutor_execute env userCode) (map TimerFires ts) = CodeExecutor_execute env userCode"
    using t by (rule rpc_run_timers_unarmed)
  have pending: "CodeExecutor_outcome (CodeExecutor_execute env userCode) = Pending"
    by (simp add: CodeExecutor_outcome_def CodeExecutor_execute_def RpcProtocol_new_def)
  have quiet: "signals (proc (CodeExecutor_execute env userCode)) = []"
    by (simp add: CodeExecutor_execute_def RpcProtocol_new_def spawned_def)
  have sub: "ex_timers (SubprocessSandbox_execute NoSignal) = [(ExecutionTimer, 270000)]"
    by (simp add: SubprocessSandbox_execute_def setTimeout_def EXECUTION_TIMEOUT_def)
  have sub2: "ex_promise (SubprocessSandbox_step (SubprocessSandbox_execute NoSignal) (OnTimer ExecutionTimer)) =
     Rejected ''Execution timed out after 270 seconds''"
    by (simp add: SubprocessSandbox_execute_def setTimeout_def armed_def reject_def
        timeout_message_text Let_def)
  show ?thesis using t never run pending quiet sub sub2 by simp
qed




end
